theory Spec2Isabelle
  imports Complex_Main "HOL-Library.Sublist" "HOL-Library.Log_Nat"
begin

section \<open>Python values, exceptions and the two enumerations\<close>

text \<open>
  \<^verbatim>\<open>class Role(Enum)\<close> and \<^verbatim>\<open>class Department(Enum)\<close> of employee.py, with the
  integer value of each member.
\<close>

datatype Role = ceo | cfo | cio

datatype Department = accounting | finance | hr | r_and_d | machining

fun role_value :: "Role \<Rightarrow> int" where
  "role_value ceo = 1"
| "role_value cfo = 2"
| "role_value cio = 3"

fun department_value :: "Department \<Rightarrow> int" where
  "department_value accounting = 1"
| "department_value finance = 2"
| "department_value hr = 3"
| "department_value r_and_d = 4"
| "department_value machining = 5"

text \<open>
  A Python float is an IEEE binary64 value: a finite number (kept as the exact rational
  it denotes), an infinity or a NaN. Negative zero is not kept apart from zero: it
  compares equal to zero, and no setter of this module stores a zero.
\<close>

datatype pyfloat = Finite rat | PosInf | NegInf | NaN

text \<open>A naive \<^verbatim>\<open>datetime.datetime\<close> (no tzinfo).\<close>

record datetime =
  year :: int
  month :: int
  day :: int
  hour :: int
  minute :: int
  second :: int
  microsecond :: int

text \<open>
  The values a caller can pass to a constructor or a setter. Python's \<^verbatim>\<open>bool\<close> is a
  subclass of \<^verbatim>\<open>int\<close> (\<^verbatim>\<open>True == 1\<close>, \<^verbatim>\<open>isinstance(True, int)\<close>), so the
  booleans are the integers 1 and 0 here.
\<close>

datatype pyval =
    VNone
  | VInt int
  | VFloat pyfloat
  | VStr string
  | VDatetime datetime
  | VRole Role
  | VDepartment Department

datatype exn =
    ValueError
  | TypeError
  | OverflowError
  | AttributeError
  | IndexError
  | ZeroDivisionError
  | InvalidRoleException
  | InvalidDepartmentException

section \<open>IEEE binary64: comparison, rounding, arithmetic\<close>

text \<open>
  Comparisons follow IEEE 754: every comparison with a NaN is false.
\<close>

fun fle :: "pyfloat \<Rightarrow> pyfloat \<Rightarrow> bool" where
  "fle NaN y = False"
| "fle x NaN = False"
| "fle NegInf y = True"
| "fle x PosInf = True"
| "fle (Finite a) (Finite b) = (a \<le> b)"
| "fle x y = False"

fun flt :: "pyfloat \<Rightarrow> pyfloat \<Rightarrow> bool" where
  "flt NaN y = False"
| "flt x NaN = False"
| "flt (Finite a) (Finite b) = (a < b)"
| "flt NegInf NegInf = False"
| "flt NegInf y = True"
| "flt PosInf y = False"
| "flt x PosInf = True"
| "flt x NegInf = False"

definition round_half_even :: "rat \<Rightarrow> int" where
  "round_half_even x =
     (let f = \<lfloor>x\<rfloor>; d = x - of_int f
      in if d < 1 / 2 then f else if 1 / 2 < d then f + 1 else if even f then f else f + 1)"

text \<open>The binary exponent of a positive rational: \<open>2 powi binade q \<le> q < 2 powi (binade q + 1)\<close>.\<close>

definition binade :: "rat \<Rightarrow> int" where
  "binade q =
     (let k = bitlen (fst (quotient_of q)) - bitlen (snd (quotient_of q))
      in if 2 powi k \<le> q then k else k - 1)"

text \<open>
  Rounding a rational to the nearest binary64 value, ties to even: 53 significant bits,
  exponents from -1022 (below it the spacing stays \<open>2 powi (-1074)\<close>), overflow to an
  infinity from \<open>2 powi 1024\<close> on.
\<close>

definition round_double :: "rat \<Rightarrow> pyfloat" where
  "round_double q =
     (if q = 0 then Finite 0
      else let a = \<bar>q\<bar>;
               e = max (binade a) (- 1022);
               u = 2 powi (e - 52);
               m = round_half_even (a / u)
           in if 1024 \<le> e \<or> (e = 1023 \<and> m = 2 ^ 53) then (if 0 < q then PosInf else NegInf)
              else Finite (if 0 < q then of_int m * u else - (of_int m * u)))"


text \<open>
  Float division and multiplication: the exact result, rounded. Python raises
  ZeroDivisionError for a zero divisor, whatever the dividend.
\<close>

fun fdiv :: "pyfloat \<Rightarrow> pyfloat \<Rightarrow> exn + pyfloat" where
  "fdiv x (Finite b) =
     (if b = 0 then Inl ZeroDivisionError
      else Inr (case x of
                  Finite a \<Rightarrow> round_double (a / b)
                | PosInf \<Rightarrow> if 0 < b then PosInf else NegInf
                | NegInf \<Rightarrow> if 0 < b then NegInf else PosInf
                | NaN \<Rightarrow> NaN))"
| "fdiv (Finite a) PosInf = Inr (Finite 0)"
| "fdiv (Finite a) NegInf = Inr (Finite 0)"
| "fdiv x y = Inr NaN"

fun fmul :: "pyfloat \<Rightarrow> pyfloat \<Rightarrow> pyfloat" where
  "fmul (Finite a) (Finite b) = round_double (a * b)"
| "fmul NaN y = NaN"
| "fmul x NaN = NaN"
| "fmul (Finite a) PosInf = (if a = 0 then NaN else if 0 < a then PosInf else NegInf)"
| "fmul (Finite a) NegInf = (if a = 0 then NaN else if 0 < a then NegInf else PosInf)"
| "fmul PosInf (Finite b) = (if b = 0 then NaN else if 0 < b then PosInf else NegInf)"
| "fmul NegInf (Finite b) = (if b = 0 then NaN else if 0 < b then NegInf else PosInf)"
| "fmul PosInf PosInf = PosInf"
| "fmul NegInf NegInf = PosInf"
| "fmul PosInf NegInf = NegInf"
| "fmul NegInf PosInf = NegInf"

section \<open>Strings: decimal digits, \<^verbatim>\<open>float(s)\<close>, \<^verbatim>\<open>int(s)\<close> and formatting\<close>

text \<open>
  Strings are lists of characters with code points below 256. Among these the decimal
  digits are the ASCII ones. \<^verbatim>\<open>float\<close> and \<^verbatim>\<open>int\<close> drop, at both ends, the ASCII
  white space (tab, line feed, vertical tab, form feed, carriage return, space) and the two
  other Unicode spaces below 256 (NEL 133 and the no-break space 160); they do not drop the
  separators 28 to 31, which the regular expression \<^verbatim>\<open>\s\<close> does match. Code points
  from 256 on are outside the model.
\<close>

definition is_space :: "char \<Rightarrow> bool" where
  "is_space c = ((of_char c :: nat) \<in> set [9, 10, 11, 12, 13, 32, 133, 160])"

definition is_space_re :: "char \<Rightarrow> bool" where
  "is_space_re c =
     ((of_char c :: nat) \<in> set [9, 10, 11, 12, 13, 28, 29, 30, 31, 32, 133, 160])"

definition strip :: "string \<Rightarrow> string" where
  "strip s = rev (dropWhile is_space (rev (dropWhile is_space s)))"

definition is_digit :: "char \<Rightarrow> bool" where
  "is_digit c = (48 \<le> (of_char c :: nat) \<and> (of_char c :: nat) \<le> 57)"

definition digit_val :: "char \<Rightarrow> int" where
  "digit_val c = of_char c - 48"

definition digits_val :: "string \<Rightarrow> int" where
  "digits_val ds = foldl (\<lambda>a c. 10 * a + digit_val c) 0 ds"

definition lower_char :: "char \<Rightarrow> char" where
  "lower_char c = (if 65 \<le> (of_char c :: nat) \<and> (of_char c :: nat) \<le> 90
                   then char_of ((of_char c :: nat) + 32) else c)"

text \<open>
  \<^verbatim>\<open>digitpart ::= digit (["_"] digit)*\<close>: the digits read (underscores dropped) and
  the rest of the string; no digits when the string does not start with one.
\<close>

fun digitpart :: "string \<Rightarrow> string \<times> string" where
  "digitpart [] = ([], [])"
| "digitpart (c # cs) =
     (if is_digit c
      then (case cs of
              u # d # ds \<Rightarrow>
                if u = CHR ''_'' \<and> is_digit d
                then (c # fst (digitpart (d # ds)), snd (digitpart (d # ds)))
                else (c # fst (digitpart cs), snd (digitpart cs))
            | _ \<Rightarrow> (c # fst (digitpart cs), snd (digitpart cs)))
      else ([], c # cs))"

definition take_sign :: "string \<Rightarrow> bool \<times> string" where
  "take_sign s =
     (case s of
        [] \<Rightarrow> (False, [])
      | c # cs \<Rightarrow> if c = CHR ''-'' then (True, cs)
                  else if c = CHR ''+'' then (False, cs) else (False, s))"

text \<open>\<^verbatim>\<open>exponent ::= ("e" | "E") [sign] digitpart\<close>, optional.\<close>

definition parse_exponent :: "string \<Rightarrow> (int \<times> string) option" where
  "parse_exponent s =
     (case s of
        [] \<Rightarrow> Some (0, [])
      | c # cs \<Rightarrow>
          if c = CHR ''e'' \<or> c = CHR ''E''
          then (let (neg, r) = take_sign cs; (ds, r') = digitpart r
                in if ds = [] then None
                   else Some (if neg then - digits_val ds else digits_val ds, r'))
          else Some (0, s))"

text \<open>
  \<^verbatim>\<open>number ::= [digitpart] "." digitpart | digitpart ["."]\<close>, then the exponent; the whole
  string must be used up. The value is exact.
\<close>

definition parse_number :: "string \<Rightarrow> rat option" where
  "parse_number s =
     (let (ip, r1) = digitpart s;
          (fp, r2) = (case r1 of
                        [] \<Rightarrow> ([], [])
                      | c # cs \<Rightarrow> if c = CHR ''.'' then digitpart cs else ([], r1))
      in if ip = [] \<and> fp = [] then None
         else (case parse_exponent r2 of
                 None \<Rightarrow> None
               | Some (ex, r3) \<Rightarrow>
                   if r3 \<noteq> [] then None
                   else Some (of_int (digits_val (ip @ fp)) * 10 powi (ex - int (length fp)))))"

text \<open>
  \<^verbatim>\<open>float(s)\<close> for a string: white space around it is dropped, then an optional sign and
  \<^verbatim>\<open>inf\<close>, \<^verbatim>\<open>infinity\<close>, \<^verbatim>\<open>nan\<close> (in any case) or a decimal number, which is rounded to
  the nearest binary64 value. \<open>None\<close> is ValueError.
\<close>

definition float_of_string :: "string \<Rightarrow> pyfloat option" where
  "float_of_string s =
     (let (neg, r) = take_sign (strip s); l = map lower_char r
      in if l = ''inf'' \<or> l = ''infinity'' then Some (if neg then NegInf else PosInf)
         else if l = ''nan'' then Some NaN
         else (case parse_number r of
                 None \<Rightarrow> None
               | Some q \<Rightarrow> Some (round_double (if neg then - q else q))))"

definition int_of_string :: "string \<Rightarrow> int option" where
  "int_of_string s =
     (let (neg, r) = take_sign (strip s); (ds, r') = digitpart r
      in if ds = [] \<or> r' \<noteq> [] then None
         else Some (if neg then - digits_val ds else digits_val ds))"

text \<open>\<^verbatim>\<open>float(x)\<close> and \<^verbatim>\<open>int(x)\<close> on a Python value.\<close>

fun py_float :: "pyval \<Rightarrow> exn + pyfloat" where
  "py_float (VFloat f) = Inr f"
| "py_float (VInt i) =
     (case round_double (of_int i) of Finite r \<Rightarrow> Inr (Finite r) | _ \<Rightarrow> Inl OverflowError)"
| "py_float (VStr s) = (case float_of_string s of Some f \<Rightarrow> Inr f | None \<Rightarrow> Inl ValueError)"
| "py_float _ = Inl TypeError"

fun py_int :: "pyval \<Rightarrow> exn + int" where
  "py_int (VInt i) = Inr i"
| "py_int (VFloat (Finite q)) = Inr (if 0 \<le> q then \<lfloor>q\<rfloor> else \<lceil>q\<rceil>)"
| "py_int (VFloat NaN) = Inl ValueError"
| "py_int (VFloat _) = Inl OverflowError"
| "py_int (VStr s) = (case int_of_string s of Some i \<Rightarrow> Inr i | None \<Rightarrow> Inl ValueError)"
| "py_int _ = Inl TypeError"

text \<open>
  \<^verbatim>\<open>str\<close> of an int: the decimal digits of a number that is not negative, a minus
  sign before those of a negative one; \<^verbatim>\<open>zfill\<close> pads with zeros on the left.
\<close>

definition digit_char :: "int \<Rightarrow> char" where
  "digit_char d = char_of (48 + d)"

function show_nat :: "int \<Rightarrow> string" where
  "show_nat n = (if n < 10 then [digit_char n] else show_nat (n div 10) @ [digit_char (n mod 10)])"
  by pat_completeness auto
termination
  by (relation "measure nat") auto

definition show_int :: "int \<Rightarrow> string" where
  "show_int i = (if i < 0 then CHR ''-'' # show_nat (- i) else show_nat i)"

definition zfill :: "nat \<Rightarrow> string \<Rightarrow> string" where
  "zfill w s = replicate (w - length s) (CHR ''0'') @ s"

text \<open>
  The format \<^verbatim>\<open>:.2f\<close>: the exact value rounded to two decimals, ties to even.
\<close>

definition fmt_2f :: "pyfloat \<Rightarrow> string" where
  "fmt_2f x =
     (case x of
        NaN \<Rightarrow> ''nan''
      | PosInf \<Rightarrow> ''inf''
      | NegInf \<Rightarrow> ''-inf''
      | Finite q \<Rightarrow>
          (let n = round_half_even (\<bar>q\<bar> * 100)
           in (if q < 0 then ''-'' else []) @ show_nat (n div 100) @ ''.''
              @ zfill 2 (show_nat (n mod 100))))"

text \<open>\<^verbatim>\<open>str(d)\<close> of a naive datetime: ISO format with a space; microseconds only when not zero.\<close>

definition datetime_str :: "datetime \<Rightarrow> string" where
  "datetime_str d =
     zfill 4 (show_nat (year d)) @ ''-'' @ zfill 2 (show_nat (month d)) @ ''-''
     @ zfill 2 (show_nat (day d)) @ '' '' @ zfill 2 (show_nat (hour d)) @ '':''
     @ zfill 2 (show_nat (minute d)) @ '':'' @ zfill 2 (show_nat (second d))
     @ (if microsecond d \<noteq> 0 then ''.'' @ zfill 6 (show_nat (microsecond d)) else [])"

section \<open>The class hierarchy as records\<close>

text \<open>
  Each class is a record and each subclass extends its base, so an operation written for
  \<open>'a employee_scheme\<close> applies to every subclass, as an inherited method does. The private
  attributes \<^verbatim>\<open>_name\<close>, \<^verbatim>\<open>_email\<close>, \<^verbatim>\<open>_image\<close>, \<^verbatim>\<open>_id_number\<close>, ... are the fields;
  \<^verbatim>\<open>image\<close> is called \<open>image_path\<close> (\<open>image\<close> is a constant of HOL).
\<close>

record employee =
  name :: string
  email :: string
  image_path :: string
  id_number :: int

record salaried = employee +
  yearly :: pyfloat

record hourly = employee +
  hourly :: pyfloat

record executive = salaried +
  role :: Role

record manager = salaried +
  department :: Department

record permanent = hourly +
  hired_date :: datetime

record temp = hourly +
  last_day :: datetime

section \<open>Setters of class Employee\<close>

text \<open>
  A setter returns the exception it raised (\<open>None\<close> when it returned normally) and the
  object as it is after the call.
\<close>

definition IMAGE_PLACEHOLDER :: string where
  "IMAGE_PLACEHOLDER = ''./imagesForProject2CIS163/placeholder.png''"

definition company_domain :: string where
  "company_domain = ''@acme-machining.com''"

definition set_name :: "pyval \<Rightarrow> 'a employee_scheme \<Rightarrow> exn option \<times> 'a employee_scheme" where
  "set_name new_name self =
     (case new_name of
        VStr s \<Rightarrow> if length s \<le> 0 then (Some ValueError, self)
                  else (None, self\<lparr>name := s\<rparr>)
      | _ \<Rightarrow> (Some ValueError, self))"

text \<open>\<^verbatim>\<open>"@acme-machining.com" not in new_email\<close> is a substring test.\<close>

definition set_email :: "pyval \<Rightarrow> 'a employee_scheme \<Rightarrow> exn option \<times> 'a employee_scheme" where
  "set_email new_email self =
     (case new_email of
        VStr s \<Rightarrow> if length s \<le> 0 \<or> \<not> sublist company_domain s then (Some ValueError, self)
                  else (None, self\<lparr>email := s\<rparr>)
      | _ \<Rightarrow> (Some ValueError, self))"

definition set_image :: "pyval \<Rightarrow> 'a employee_scheme \<Rightarrow> exn option \<times> 'a employee_scheme" where
  "set_image new_image self =
     (case new_image of
        VStr s \<Rightarrow> if length s = 0 then (Some ValueError, self)
                  else (None, self\<lparr>image_path := s\<rparr>)
      | _ \<Rightarrow> (Some ValueError, self))"

text \<open>
  \<^verbatim>\<open>id_number\<close> is a property with a getter only (its setter is commented out), so an
  assignment to it raises AttributeError and stores nothing.
\<close>

definition set_id_number :: "pyval \<Rightarrow> 'a employee_scheme \<Rightarrow> exn option \<times> 'a employee_scheme" where
  "set_id_number new_num self = (Some AttributeError, self)"

section \<open>Setters of Executive and Manager\<close>

text \<open>
  \<^verbatim>\<open>new_role not in all_role_vals\<close> compares with \<^verbatim>\<open>==\<close>, which holds between an int
  and a float of the same value; \<^verbatim>\<open>isinstance(new_role, int)\<close> then refuses the float.
\<close>

fun py_in_ints :: "pyval \<Rightarrow> int list \<Rightarrow> bool" where
  "py_in_ints (VInt i) vals = (i \<in> set vals)"
| "py_in_ints (VFloat (Finite q)) vals = (q \<in> set (map of_int vals))"
| "py_in_ints _ vals = False"

fun isinstance_int :: "pyval \<Rightarrow> bool" where
  "isinstance_int (VInt i) = True"
| "isinstance_int _ = False"

definition all_role_vals :: "int list" where
  "all_role_vals = map role_value [ceo, cfo, cio]"

definition all_depts :: "int list" where
  "all_depts = map department_value [accounting, finance, hr, r_and_d, machining]"

text \<open>\<^verbatim>\<open>Role(v)\<close> and \<^verbatim>\<open>Department(v)\<close>: the member with that value, or ValueError.\<close>

definition Role_of :: "int \<Rightarrow> exn + Role" where
  "Role_of v = (case find (\<lambda>r. role_value r = v) [ceo, cfo, cio] of
                  Some r \<Rightarrow> Inr r | None \<Rightarrow> Inl ValueError)"

definition Department_of :: "int \<Rightarrow> exn + Department" where
  "Department_of v =
     (case find (\<lambda>d. department_value d = v) [accounting, finance, hr, r_and_d, machining] of
        Some d \<Rightarrow> Inr d | None \<Rightarrow> Inl ValueError)"

definition set_role :: "pyval \<Rightarrow> 'a executive_scheme \<Rightarrow> exn option \<times> 'a executive_scheme" where
  "set_role new_role self =
     (if \<not> py_in_ints new_role all_role_vals \<or> \<not> isinstance_int new_role
      then (Some InvalidRoleException, self)
      else (case new_role of
              VInt i \<Rightarrow> (case Role_of i of
                           Inl e \<Rightarrow> (Some e, self)
                         | Inr r \<Rightarrow> (None, self\<lparr>role := r\<rparr>))
            | _ \<Rightarrow> (Some TypeError, self)))"

definition set_department :: "pyval \<Rightarrow> 'a manager_scheme \<Rightarrow> exn option \<times> 'a manager_scheme" where
  "set_department new_dept self =
     (if \<not> py_in_ints new_dept all_depts \<or> \<not> isinstance_int new_dept
      then (Some InvalidDepartmentException, self)
      else (case new_dept of
              VInt i \<Rightarrow> (case Department_of i of
                           Inl e \<Rightarrow> (Some e, self)
                         | Inr d \<Rightarrow> (None, self\<lparr>department := d\<rparr>))
            | _ \<Rightarrow> (Some TypeError, self)))"

section \<open>Setters of Permanent and Temp\<close>

definition set_hired_date :: "pyval \<Rightarrow> 'a permanent_scheme \<Rightarrow> exn option \<times> 'a permanent_scheme" where
  "set_hired_date date self =
     (case date of
        VDatetime d \<Rightarrow> (None, self\<lparr>hired_date := d\<rparr>)
      | _ \<Rightarrow> (Some ValueError, self))"

definition set_last_day :: "pyval \<Rightarrow> 'a temp_scheme \<Rightarrow> exn option \<times> 'a temp_scheme" where
  "set_last_day new_date self =
     (case new_date of
        VDatetime d \<Rightarrow> (None, self\<lparr>last_day := d\<rparr>)
      | _ \<Rightarrow> (Some ValueError, self))"

section \<open>Setters and pay of Salaried and Hourly\<close>

text \<open>
  Both setters convert with \<^verbatim>\<open>float(...)\<close> first, so the \<^verbatim>\<open>isinstance(..., float)\<close>
  test that follows is always true and only the comparison decides.
\<close>

definition set_yearly :: "pyval \<Rightarrow> 'a salaried_scheme \<Rightarrow> exn option \<times> 'a salaried_scheme" where
  "set_yearly yearly_amount self =
     (case py_float yearly_amount of
        Inl e \<Rightarrow> (Some e, self)
      | Inr x \<Rightarrow> if fle x (Finite 50000) then (Some ValueError, self)
                 else (None, self\<lparr>yearly := x\<rparr>))"

text \<open>The literal \<^verbatim>\<open>99.99\<close>: the binary64 value nearest to it.\<close>

definition lit_99_99 :: pyfloat where
  "lit_99_99 = round_double (9999 / 100)"

definition set_hourly :: "pyval \<Rightarrow> 'a hourly_scheme \<Rightarrow> exn option \<times> 'a hourly_scheme" where
  "set_hourly new_hourly self =
     (case py_float new_hourly of
        Inl e \<Rightarrow> (Some e, self)
      | Inr x \<Rightarrow> if \<not> (fle (Finite 15) x \<and> fle x lit_99_99) then (Some ValueError, self)
                 else (None, self\<lparr>hourly := x\<rparr>))"

definition Salaried_calc_pay :: "'a salaried_scheme \<Rightarrow> exn + pyfloat" where
  "Salaried_calc_pay self = fdiv (yearly self) (Finite 52)"

definition Hourly_calc_pay :: "'a hourly_scheme \<Rightarrow> pyfloat" where
  "Hourly_calc_pay self = fmul (hourly self) (Finite 40)"

section \<open>\<^verbatim>\<open>datetime.strptime(s, '%Y-%m-%d %H:%M:%S')\<close>\<close>

text \<open>
  Python turns the format into the regular expression
  \<^verbatim>\<open>(\d\d\d\d)-(1[0-2]|0[1-9]|[1-9])-(3[0-1]|[1-2]\d|0[1-9]|[1-9]| [1-9])\s+\<close>
  \<^verbatim>\<open>(2[0-3]|[0-1]\d|\d):([0-5]\d|\d):(6[0-1]|[0-5]\d|\d)\<close>, matches it at the start of the
  string and then requires that nothing is left over. A regular expression is modelled by
  the list of its matches (the text matched and the rest of the string) in the order in
  which the backtracking matcher tries them, so the head of the list is the match found.
\<close>

type_synonym rx = "string \<Rightarrow> (string \<times> string) list"

definition rx_char :: "(char \<Rightarrow> bool) \<Rightarrow> rx" where
  "rx_char P s = (case s of [] \<Rightarrow> [] | c # r \<Rightarrow> if P c then [([c], r)] else [])"

definition rx_seq :: "rx \<Rightarrow> rx \<Rightarrow> rx" where
  "rx_seq p q s = concat (map (\<lambda>(a, r). map (\<lambda>(b, r'). (a @ b, r')) (q r)) (p s))"

definition rx_alt :: "rx \<Rightarrow> rx \<Rightarrow> rx" where
  "rx_alt p q s = p s @ q s"

definition in_range :: "char \<Rightarrow> char \<Rightarrow> char \<Rightarrow> bool" where
  "in_range lo hi c = ((of_char lo :: nat) \<le> of_char c \<and> (of_char c :: nat) \<le> of_char hi)"

definition rx_lit :: "char \<Rightarrow> rx" where
  "rx_lit x = rx_char (\<lambda>c. c = x)"

definition rx_range :: "char \<Rightarrow> char \<Rightarrow> rx" where
  "rx_range lo hi = rx_char (in_range lo hi)"

definition rx_digit :: rx where
  "rx_digit = rx_char is_digit"

text \<open>\<^verbatim>\<open>\s+\<close>, greedy: the longest run of white space first.\<close>

definition rx_spaces1 :: rx where
  "rx_spaces1 s =
     map (\<lambda>k. (take k s, drop k s)) (rev [1 ..< Suc (length (takeWhile is_space_re s))])"

definition rx_Y :: rx where
  "rx_Y = rx_seq rx_digit (rx_seq rx_digit (rx_seq rx_digit rx_digit))"

definition rx_m :: rx where
  "rx_m = rx_alt (rx_seq (rx_lit CHR ''1'') (rx_range CHR ''0'' CHR ''2''))
         (rx_alt (rx_seq (rx_lit CHR ''0'') (rx_range CHR ''1'' CHR ''9''))
                 (rx_range CHR ''1'' CHR ''9''))"

definition rx_d :: rx where
  "rx_d = rx_alt (rx_seq (rx_lit CHR ''3'') (rx_range CHR ''0'' CHR ''1''))
         (rx_alt (rx_seq (rx_range CHR ''1'' CHR ''2'') rx_digit)
         (rx_alt (rx_seq (rx_lit CHR ''0'') (rx_range CHR ''1'' CHR ''9''))
         (rx_alt (rx_range CHR ''1'' CHR ''9'')
                 (rx_seq (rx_lit CHR '' '') (rx_range CHR ''1'' CHR ''9'')))))"

definition rx_H :: rx where
  "rx_H = rx_alt (rx_seq (rx_lit CHR ''2'') (rx_range CHR ''0'' CHR ''3''))
         (rx_alt (rx_seq (rx_range CHR ''0'' CHR ''1'') rx_digit) rx_digit)"

definition rx_M :: rx where
  "rx_M = rx_alt (rx_seq (rx_range CHR ''0'' CHR ''5'') rx_digit) rx_digit"

definition rx_S :: rx where
  "rx_S = rx_alt (rx_seq (rx_lit CHR ''6'') (rx_range CHR ''0'' CHR ''1''))
         (rx_alt (rx_seq (rx_range CHR ''0'' CHR ''5'') rx_digit) rx_digit)"

text \<open>The matches of the whole expression: the six groups and the rest of the string.\<close>

definition strptime_matches ::
  "string \<Rightarrow> (string \<times> string \<times> string \<times> string \<times> string \<times> string \<times> string) list" where
  "strptime_matches s =
     concat (map (\<lambda>(Y, r0).
     concat (map (\<lambda>(x1, r1).
     concat (map (\<lambda>(m, r2).
     concat (map (\<lambda>(x2, r3).
     concat (map (\<lambda>(d, r4).
     concat (map (\<lambda>(x3, r5).
     concat (map (\<lambda>(H, r6).
     concat (map (\<lambda>(x4, r7).
     concat (map (\<lambda>(M, r8).
     concat (map (\<lambda>(x5, r9).
             map (\<lambda>(S, r10). (Y, m, d, H, M, S, r10)) (rx_S r9))
       (rx_lit CHR '':'' r8))) (rx_M r7))) (rx_lit CHR '':'' r6))) (rx_H r5)))
       (rx_spaces1 r4))) (rx_d r3))) (rx_lit CHR ''-'' r2))) (rx_m r1)))
       (rx_lit CHR ''-'' r0))) (rx_Y s))"

definition is_leap :: "int \<Rightarrow> bool" where
  "is_leap y = (y mod 4 = 0 \<and> (y mod 100 \<noteq> 0 \<or> y mod 400 = 0))"

definition days_in_month :: "int \<Rightarrow> int \<Rightarrow> int" where
  "days_in_month y m =
     (if m = 2 then (if is_leap y then 29 else 28)
      else if m \<in> set [4, 6, 9, 11] then 30 else 31)"

text \<open>The ranges every \<^verbatim>\<open>datetime\<close> object satisfies; its constructor raises ValueError otherwise.\<close>

definition valid_datetime :: "datetime \<Rightarrow> bool" where
  "valid_datetime d =
     (1 \<le> year d \<and> year d \<le> 9999 \<and> 1 \<le> month d \<and> month d \<le> 12
      \<and> 1 \<le> day d \<and> day d \<le> days_in_month (year d) (month d)
      \<and> 0 \<le> hour d \<and> hour d < 24 \<and> 0 \<le> minute d \<and> minute d < 60
      \<and> 0 \<le> second d \<and> second d < 60 \<and> 0 \<le> microsecond d \<and> microsecond d < 1000000)"

definition strptime :: "pyval \<Rightarrow> exn + datetime" where
  "strptime data_string =
     (case data_string of
        VStr s \<Rightarrow>
          (case strptime_matches s of
             [] \<Rightarrow> Inl ValueError
           | (Y, m, d, H, M, S, rest) # other \<Rightarrow>
               if rest \<noteq> [] then Inl ValueError
               else (let dt = \<lparr>year = digits_val Y, month = digits_val m,
                                day = digits_val (strip d), hour = digits_val H,
                                minute = digits_val M, second = digits_val S,
                                microsecond = 0\<rparr>
                     in if valid_datetime dt then Inr dt else Inl ValueError))
      | _ \<Rightarrow> Inl TypeError)"

section \<open>Abstract classes: \<^verbatim>\<open>ABC\<close> and \<^verbatim>\<open>abc.abstractmethod\<close>\<close>

text \<open>
  The seven classes of employee.py, with the methods and properties each class body
  defines (\<open>True\<close> marks one decorated with \<^verbatim>\<open>abc.abstractmethod\<close>) and the method
  resolution order that the class statements give.
\<close>

datatype cls = Employee | Salaried | Hourly | Executive | Manager | Permanent | Temp

fun namespace :: "cls \<Rightarrow> (string \<times> bool) list" where
  "namespace Employee =
     [(''__init__'', False), (''__str__'', False), (''__repr__'', False),
      (''id_number'', False), (''name'', False), (''email'', False), (''image'', False),
      (''calc_pay'', True)]"
| "namespace Salaried =
     [(''__init__'', False), (''yearly'', False), (''calc_pay'', False), (''__repr__'', False)]"
| "namespace Hourly =
     [(''__init__'', False), (''hourly'', False), (''calc_pay'', False), (''__repr__'', False)]"
| "namespace Executive = [(''__init__'', False), (''role'', False), (''__repr__'', False)]"
| "namespace Manager = [(''__init__'', False), (''department'', False), (''__repr__'', False)]"
| "namespace Permanent = [(''__init__'', False), (''hired_date'', False), (''__repr__'', False)]"
| "namespace Temp = [(''__init__'', False), (''last_day'', False), (''__repr__'', False)]"

fun mro :: "cls \<Rightarrow> cls list" where
  "mro Employee = [Employee]"
| "mro Salaried = [Salaried, Employee]"
| "mro Hourly = [Hourly, Employee]"
| "mro Executive = [Executive, Salaried, Employee]"
| "mro Manager = [Manager, Salaried, Employee]"
| "mro Permanent = [Permanent, Hourly, Employee]"
| "mro Temp = [Temp, Hourly, Employee]"

text \<open>
  \<^verbatim>\<open>getattr(cls, name).__isabstractmethod__\<close>: the flag of the first definition of the
  name along the method resolution order.
\<close>

fun getattr_isabstract :: "cls list \<Rightarrow> string \<Rightarrow> bool" where
  "getattr_isabstract [] n = False"
| "getattr_isabstract (c # cs) n =
     (case map_of (namespace c) n of Some b \<Rightarrow> b | None \<Rightarrow> getattr_isabstract cs n)"

text \<open>
  \<^verbatim>\<open>ABCMeta.__new__\<close> computes \<^verbatim>\<open>__abstractmethods__\<close>: the abstract names of the class
  body, and the abstract names of the base that are still abstract when looked up on the
  new class. \<^verbatim>\<open>object.__new__\<close> raises TypeError when the set is not empty.
\<close>

fun abstractmethods_of :: "cls list \<Rightarrow> string list" where
  "abstractmethods_of [] = []"
| "abstractmethods_of (c # supers) =
     map fst (filter snd (namespace c))
     @ filter (getattr_isabstract (c # supers)) (abstractmethods_of supers)"

definition abstractmethods :: "cls \<Rightarrow> string list" where
  "abstractmethods c = abstractmethods_of (mro c)"

definition object_new :: "cls \<Rightarrow> exn option" where
  "object_new c = (if abstractmethods c \<noteq> [] then Some TypeError else None)"

section \<open>Constructors\<close>

text \<open>
  \<^verbatim>\<open>__init__\<close> works on the object under construction and on the class attribute
  \<^verbatim>\<open>Employee._current_id\<close>, the counter: it returns the exception raised (if any), the
  object and the counter as they are afterwards. The counter is advanced at the end of
  \<^verbatim>\<open>Employee.__init__\<close>, before any subclass \<^verbatim>\<open>__init__\<close> validates its own arguments.
\<close>

definition Employee_init ::
  "pyval \<Rightarrow> pyval \<Rightarrow> 'a employee_scheme \<Rightarrow> int \<Rightarrow> exn option \<times> 'a employee_scheme \<times> int" where
  "Employee_init name' email' self current_id =
     (case set_name name' self of
        (Some e, s1) \<Rightarrow> (Some e, s1, current_id)
      | (None, s1) \<Rightarrow>
     (case set_email email' s1 of
        (Some e, s2) \<Rightarrow> (Some e, s2, current_id)
      | (None, s2) \<Rightarrow>
     (case set_image (VStr IMAGE_PLACEHOLDER) s2 of
        (Some e, s3) \<Rightarrow> (Some e, s3, current_id)
      | (None, s3) \<Rightarrow> (None, s3\<lparr>id_number := current_id\<rparr>, current_id + 1))))"

definition Salaried_init ::
  "pyval \<Rightarrow> pyval \<Rightarrow> pyval \<Rightarrow> 'a salaried_scheme \<Rightarrow> int
   \<Rightarrow> exn option \<times> 'a salaried_scheme \<times> int" where
  "Salaried_init name' email' yearly' self current_id =
     (case Employee_init name' email' self current_id of
        (Some e, s, c) \<Rightarrow> (Some e, s, c)
      | (None, s, c) \<Rightarrow>
          (case py_float yearly' of
             Inl e \<Rightarrow> (Some e, s, c)
           | Inr f \<Rightarrow> (case set_yearly (VFloat f) s of (r, s') \<Rightarrow> (r, s', c))))"

definition Hourly_init ::
  "pyval \<Rightarrow> pyval \<Rightarrow> pyval \<Rightarrow> 'a hourly_scheme \<Rightarrow> int
   \<Rightarrow> exn option \<times> 'a hourly_scheme \<times> int" where
  "Hourly_init name' email' hourly_pay self current_id =
     (case Employee_init name' email' self current_id of
        (Some e, s, c) \<Rightarrow> (Some e, s, c)
      | (None, s, c) \<Rightarrow>
          (case py_float hourly_pay of
             Inl e \<Rightarrow> (Some e, s, c)
           | Inr f \<Rightarrow> (case set_hourly (VFloat f) s of (r, s') \<Rightarrow> (r, s', c))))"

definition Executive_init ::
  "pyval \<Rightarrow> pyval \<Rightarrow> pyval \<Rightarrow> pyval \<Rightarrow> 'a executive_scheme \<Rightarrow> int
   \<Rightarrow> exn option \<times> 'a executive_scheme \<times> int" where
  "Executive_init name' email' yearly_amount role' self current_id =
     (case Salaried_init name' email' yearly_amount self current_id of
        (Some e, s, c) \<Rightarrow> (Some e, s, c)
      | (None, s, c) \<Rightarrow>
          (case py_int role' of
             Inl e \<Rightarrow> (Some e, s, c)
           | Inr i \<Rightarrow> (case set_role (VInt i) s of (r, s') \<Rightarrow> (r, s', c))))"

definition Manager_init ::
  "pyval \<Rightarrow> pyval \<Rightarrow> pyval \<Rightarrow> pyval \<Rightarrow> 'a manager_scheme \<Rightarrow> int
   \<Rightarrow> exn option \<times> 'a manager_scheme \<times> int" where
  "Manager_init name' email' yearly' department' self current_id =
     (case Salaried_init name' email' yearly' self current_id of
        (Some e, s, c) \<Rightarrow> (Some e, s, c)
      | (None, s, c) \<Rightarrow>
          (case py_int department' of
             Inl e \<Rightarrow> (Some e, s, c)
           | Inr i \<Rightarrow> (case set_department (VInt i) s of (r, s') \<Rightarrow> (r, s', c))))"

definition Permanent_init ::
  "pyval \<Rightarrow> pyval \<Rightarrow> pyval \<Rightarrow> pyval \<Rightarrow> 'a permanent_scheme \<Rightarrow> int
   \<Rightarrow> exn option \<times> 'a permanent_scheme \<times> int" where
  "Permanent_init name' email' hourly_pay hired_date' self current_id =
     (case Hourly_init name' email' hourly_pay self current_id of
        (Some e, s, c) \<Rightarrow> (Some e, s, c)
      | (None, s, c) \<Rightarrow>
          (case strptime hired_date' of
             Inl e \<Rightarrow> (Some e, s, c)
           | Inr d \<Rightarrow> (case set_hired_date (VDatetime d) s of (r, s') \<Rightarrow> (r, s', c))))"

definition Temp_init ::
  "pyval \<Rightarrow> pyval \<Rightarrow> pyval \<Rightarrow> pyval \<Rightarrow> 'a temp_scheme \<Rightarrow> int
   \<Rightarrow> exn option \<times> 'a temp_scheme \<times> int" where
  "Temp_init name' email' hourly' last_day' self current_id =
     (case Hourly_init name' email' hourly' self current_id of
        (Some e, s, c) \<Rightarrow> (Some e, s, c)
      | (None, s, c) \<Rightarrow>
          (case strptime last_day' of
             Inl e \<Rightarrow> (Some e, s, c)
           | Inr d \<Rightarrow> (case set_last_day (VDatetime d) s of (r, s') \<Rightarrow> (r, s', c))))"

text \<open>
  The object that \<^verbatim>\<open>object.__new__\<close> hands to \<^verbatim>\<open>__init__\<close> has no attributes yet; the
  fields of the blank records below are placeholders that a successful \<^verbatim>\<open>__init__\<close>
  overwrites, every one of them.
\<close>

definition blank_employee :: employee where
  "blank_employee = \<lparr>name = [], email = [], image_path = [], id_number = 0\<rparr>"

definition blank_datetime :: datetime where
  "blank_datetime =
     \<lparr>year = 1, month = 1, day = 1, hour = 0, minute = 0, second = 0, microsecond = 0\<rparr>"

definition blank_salaried :: salaried where
  "blank_salaried = \<lparr>name = [], email = [], image_path = [], id_number = 0, yearly = NaN\<rparr>"

definition blank_hourly :: hourly where
  "blank_hourly = \<lparr>name = [], email = [], image_path = [], id_number = 0, hourly = NaN\<rparr>"

definition blank_executive :: executive where
  "blank_executive =
     \<lparr>name = [], email = [], image_path = [], id_number = 0, yearly = NaN, role = ceo\<rparr>"

definition blank_manager :: manager where
  "blank_manager =
     \<lparr>name = [], email = [], image_path = [], id_number = 0, yearly = NaN,
      department = accounting\<rparr>"

definition blank_permanent :: permanent where
  "blank_permanent =
     \<lparr>name = [], email = [], image_path = [], id_number = 0, hourly = NaN,
      hired_date = blank_datetime\<rparr>"

definition blank_temp :: temp where
  "blank_temp =
     \<lparr>name = [], email = [], image_path = [], id_number = 0, hourly = NaN,
      last_day = blank_datetime\<rparr>"

text \<open>
  A call of a class: \<^verbatim>\<open>object.__new__\<close>, then \<^verbatim>\<open>__init__\<close>. The result is the new
  object or the exception, and the counter afterwards.
\<close>

definition construct ::
  "cls \<Rightarrow> ('a \<Rightarrow> int \<Rightarrow> exn option \<times> 'a \<times> int) \<Rightarrow> 'a \<Rightarrow> int \<Rightarrow> (exn + 'a) \<times> int" where
  "construct c init blank current_id =
     (case object_new c of
        Some e \<Rightarrow> (Inl e, current_id)
      | None \<Rightarrow> (case init blank current_id of
                   (Some e, s, c') \<Rightarrow> (Inl e, c')
                 | (None, s, c') \<Rightarrow> (Inr s, c')))"

definition Employee_new :: "pyval \<Rightarrow> pyval \<Rightarrow> int \<Rightarrow> (exn + employee) \<times> int" where
  "Employee_new n e = construct Employee (Employee_init n e) blank_employee"

definition Salaried_new :: "pyval \<Rightarrow> pyval \<Rightarrow> pyval \<Rightarrow> int \<Rightarrow> (exn + salaried) \<times> int" where
  "Salaried_new n e y = construct Salaried (Salaried_init n e y) blank_salaried"

definition Hourly_new :: "pyval \<Rightarrow> pyval \<Rightarrow> pyval \<Rightarrow> int \<Rightarrow> (exn + hourly) \<times> int" where
  "Hourly_new n e h = construct Hourly (Hourly_init n e h) blank_hourly"

definition Executive_new ::
  "pyval \<Rightarrow> pyval \<Rightarrow> pyval \<Rightarrow> pyval \<Rightarrow> int \<Rightarrow> (exn + executive) \<times> int" where
  "Executive_new n e y r = construct Executive (Executive_init n e y r) blank_executive"

definition Manager_new ::
  "pyval \<Rightarrow> pyval \<Rightarrow> pyval \<Rightarrow> pyval \<Rightarrow> int \<Rightarrow> (exn + manager) \<times> int" where
  "Manager_new n e y d = construct Manager (Manager_init n e y d) blank_manager"

definition Permanent_new ::
  "pyval \<Rightarrow> pyval \<Rightarrow> pyval \<Rightarrow> pyval \<Rightarrow> int \<Rightarrow> (exn + permanent) \<times> int" where
  "Permanent_new n e h d = construct Permanent (Permanent_init n e h d) blank_permanent"

definition Temp_new ::
  "pyval \<Rightarrow> pyval \<Rightarrow> pyval \<Rightarrow> pyval \<Rightarrow> int \<Rightarrow> (exn + temp) \<times> int" where
  "Temp_new n e h d = construct Temp (Temp_init n e h d) blank_temp"

section \<open>Sequences of constructor calls\<close>

datatype ctor_call =
    NewEmployee pyval pyval
  | NewSalaried pyval pyval pyval
  | NewHourly pyval pyval pyval
  | NewExecutive pyval pyval pyval pyval
  | NewManager pyval pyval pyval pyval
  | NewPermanent pyval pyval pyval pyval
  | NewTemp pyval pyval pyval pyval

text \<open>The id number of the object a call yields (if it yields one) and the counter afterwards.\<close>

definition new_id :: "(exn + 'a employee_scheme) \<times> int \<Rightarrow> int option \<times> int" where
  "new_id r = (case r of (Inl e, c) \<Rightarrow> (None, c) | (Inr s, c) \<Rightarrow> (Some (id_number s), c))"

fun call_id :: "ctor_call \<Rightarrow> int \<Rightarrow> int option \<times> int" where
  "call_id (NewEmployee n e) c = new_id (Employee_new n e c)"
| "call_id (NewSalaried n e y) c = new_id (Salaried_new n e y c)"
| "call_id (NewHourly n e h) c = new_id (Hourly_new n e h c)"
| "call_id (NewExecutive n e y r) c = new_id (Executive_new n e y r c)"
| "call_id (NewManager n e y d) c = new_id (Manager_new n e y d c)"
| "call_id (NewPermanent n e h d) c = new_id (Permanent_new n e h d c)"
| "call_id (NewTemp n e h d) c = new_id (Temp_new n e h d c)"

text \<open>
  The calls are made one after the other, a failed one being caught by the caller; the
  result lists the id numbers of the objects constructed, in the order of construction.
\<close>

fun ids_of_run :: "ctor_call list \<Rightarrow> int \<Rightarrow> int list" where
  "ids_of_run [] c = []"
| "ids_of_run (k # ks) c =
     (case call_id k c of
        (None, c') \<Rightarrow> ids_of_run ks c'
      | (Some i, c') \<Rightarrow> i # ids_of_run ks c')"

text \<open>
  What an initialiser does to the counter: \<open>takes_id\<close> holds of a result when a normal
  return has given the object the old counter value and advanced the counter by one, and
  an exception has left the counter where it was or one further.
\<close>

definition takes_id :: "int \<Rightarrow> exn option \<times> 'a employee_scheme \<times> int \<Rightarrow> bool" where
  "takes_id c r =
     (case r of
        (None, s, c') \<Rightarrow> id_number s = c \<and> c' = c + 1
      | (Some e, s, c') \<Rightarrow> c' = c \<or> c' = c + 1)"

text \<open>A call yields the old counter value as the id, or no object; the counter never goes back.\<close>

definition id_step :: "int \<Rightarrow> int option \<times> int \<Rightarrow> bool" where
  "id_step c r =
     (case r of (None, c') \<Rightarrow> c \<le> c' | (Some i, c') \<Rightarrow> i = c \<and> c' = c + 1)"

section \<open>\<^verbatim>\<open>__repr__\<close>\<close>

text \<open>
  \<^verbatim>\<open>type(self).__name__\<close> is the name of the class the object was created from, so the
  \<^verbatim>\<open>__repr__\<close> of Salaried and Hourly take that class as an argument.
\<close>

fun cls_name :: "cls \<Rightarrow> string" where
  "cls_name Employee = ''Employee''"
| "cls_name Salaried = ''Salaried''"
| "cls_name Hourly = ''Hourly''"
| "cls_name Executive = ''Executive''"
| "cls_name Manager = ''Manager''"
| "cls_name Permanent = ''Permanent''"
| "cls_name Temp = ''Temp''"

definition Employee_repr :: "'a employee_scheme \<Rightarrow> string" where
  "Employee_repr self = name self @ '','' @ email self @ '','' @ image_path self"

definition Salaried_repr :: "cls \<Rightarrow> 'a salaried_scheme \<Rightarrow> string" where
  "Salaried_repr c self = cls_name c @ '','' @ Employee_repr self @ '','' @ fmt_2f (yearly self)"

definition Hourly_repr :: "cls \<Rightarrow> 'a hourly_scheme \<Rightarrow> string" where
  "Hourly_repr c self = cls_name c @ '','' @ Employee_repr self @ '','' @ fmt_2f (hourly self)"

definition Executive_repr :: "executive \<Rightarrow> string" where
  "Executive_repr self = Salaried_repr Executive self @ '','' @ show_int (role_value (role self))"

definition Manager_repr :: "manager \<Rightarrow> string" where
  "Manager_repr self =
     Salaried_repr Manager self @ '','' @ show_int (department_value (department self))"

definition Permanent_repr :: "permanent \<Rightarrow> string" where
  "Permanent_repr self = Hourly_repr Permanent self @ '','' @ datetime_str (hired_date self)"

definition Temp_repr :: "temp \<Rightarrow> string" where
  "Temp_repr self = Hourly_repr Temp self @ '','' @ datetime_str (last_day self)"

text \<open>\<^verbatim>\<open>sep.join(xs)\<close>.\<close>

fun join :: "string \<Rightarrow> string list \<Rightarrow> string" where
  "join sep [] = []"
| "join sep [x] = x"
| "join sep (x # y # ys) = x @ sep @ join sep (y # ys)"

section \<open>gui.py: \<^verbatim>\<open>create_employee\<close>, and a row of \<^verbatim>\<open>load_file\<close>\<close>

text \<open>The objects of the four concrete classes, as one type.\<close>

datatype any_employee =
    AnExecutive executive
  | AManager manager
  | ATemp temp
  | APermanent permanent

text \<open>\<^verbatim>\<open>s.split(',')\<close>.\<close>

fun split_on :: "char \<Rightarrow> string \<Rightarrow> string list" where
  "split_on sep [] = [[]]"
| "split_on sep (c # cs) =
     (if c = sep then [] # split_on sep cs
      else (case split_on sep cs of [] \<Rightarrow> [[c]] | w # ws \<Rightarrow> (c # w) # ws))"

text \<open>\<^verbatim>\<open>employee_data[i]\<close>: IndexError when the list is too short.\<close>

definition item :: "string list \<Rightarrow> nat \<Rightarrow> exn + string" where
  "item xs i = (if i < length xs then Inr (xs ! i) else Inl IndexError)"

text \<open>
  \<^verbatim>\<open>create_employee\<close> returns \<^verbatim>\<open>None\<close> when the first field names none of the four
  classes. The four arguments of a constructor are read before it is called.
\<close>

definition args4 :: "string list \<Rightarrow> exn + (pyval \<times> pyval \<times> pyval \<times> pyval)" where
  "args4 employee_data =
     (case item employee_data 1 of Inl e \<Rightarrow> Inl e | Inr a \<Rightarrow>
     (case item employee_data 2 of Inl e \<Rightarrow> Inl e | Inr b \<Rightarrow>
     (case item employee_data 4 of Inl e \<Rightarrow> Inl e | Inr c \<Rightarrow>
     (case item employee_data 5 of Inl e \<Rightarrow> Inl e | Inr d \<Rightarrow>
        Inr (VStr a, VStr b, VStr c, VStr d)))))"

definition wrap :: "('a \<Rightarrow> any_employee) \<Rightarrow> (exn + 'a) \<times> int \<Rightarrow> (exn + any_employee option) \<times> int" where
  "wrap k r = (case r of (Inl e, c) \<Rightarrow> (Inl e, c) | (Inr x, c) \<Rightarrow> (Inr (Some (k x)), c))"

definition create_employee :: "string list \<Rightarrow> int \<Rightarrow> (exn + any_employee option) \<times> int" where
  "create_employee employee_data current_id =
     (case item employee_data 0 of
        Inl e \<Rightarrow> (Inl e, current_id)
      | Inr t \<Rightarrow>
          if t = ''Executive'' then
            (case args4 employee_data of
               Inl e \<Rightarrow> (Inl e, current_id)
             | Inr (a, b, c, d) \<Rightarrow> wrap AnExecutive (Executive_new a b c d current_id))
          else if t = ''Manager'' then
            (case args4 employee_data of
               Inl e \<Rightarrow> (Inl e, current_id)
             | Inr (a, b, c, d) \<Rightarrow> wrap AManager (Manager_new a b c d current_id))
          else if t = ''Temp'' then
            (case args4 employee_data of
               Inl e \<Rightarrow> (Inl e, current_id)
             | Inr (a, b, c, d) \<Rightarrow> wrap ATemp (Temp_new a b c d current_id))
          else if t = ''Permanent'' then
            (case args4 employee_data of
               Inl e \<Rightarrow> (Inl e, current_id)
             | Inr (a, b, c, d) \<Rightarrow> wrap APermanent (Permanent_new a b c d current_id))
          else (Inr None, current_id))"

text \<open>\<^verbatim>\<open>emp.image = row[3]\<close> on whichever object \<^verbatim>\<open>create_employee\<close> returned.\<close>

fun any_set_image :: "pyval \<Rightarrow> any_employee \<Rightarrow> exn option \<times> any_employee" where
  "any_set_image v (AnExecutive x) = (case set_image v x of (r, x') \<Rightarrow> (r, AnExecutive x'))"
| "any_set_image v (AManager x) = (case set_image v x of (r, x') \<Rightarrow> (r, AManager x'))"
| "any_set_image v (ATemp x) = (case set_image v x of (r, x') \<Rightarrow> (r, ATemp x'))"
| "any_set_image v (APermanent x) = (case set_image v x of (r, x') \<Rightarrow> (r, APermanent x'))"

text \<open>
  The body of the loop of \<^verbatim>\<open>load_file\<close> for one row: the employee appended to the data,
  or the exception that ends the loading (setting an attribute of \<^verbatim>\<open>None\<close> is an
  AttributeError).
\<close>

definition load_row :: "string list \<Rightarrow> int \<Rightarrow> (exn + any_employee) \<times> int" where
  "load_row row current_id =
     (case create_employee row current_id of
        (Inl e, c) \<Rightarrow> (Inl e, c)
      | (Inr emp, c) \<Rightarrow>
          (case item row 3 of
             Inl e \<Rightarrow> (Inl e, c)
           | Inr img \<Rightarrow>
               (case emp of
                  None \<Rightarrow> (Inl AttributeError, c)
                | Some x \<Rightarrow>
                    (case any_set_image (VStr img) x of
                       (Some e, x') \<Rightarrow> (Inl e, c)
                     | (None, x') \<Rightarrow> (Inr x', c)))))"

text \<open>\<^verbatim>\<open>worker.__repr__()\<close>, by the class of the worker.\<close>

fun any_repr :: "any_employee \<Rightarrow> string" where
  "any_repr (AnExecutive x) = Executive_repr x"
| "any_repr (AManager x) = Manager_repr x"
| "any_repr (ATemp x) = Temp_repr x"
| "any_repr (APermanent x) = Permanent_repr x"

section \<open>Auxiliary notions for the rounding proofs\<close>

text \<open>
  The exponent and the significand that \<open>round_double\<close> computes for a positive rational,
  and the literal \<^verbatim>\<open>3999.60\<close>.
\<close>

definition double_exp :: "rat \<Rightarrow> int" where
  "double_exp q = max (binade q) (- 1022)"

definition double_mant :: "rat \<Rightarrow> int" where
  "double_mant q = round_half_even (q / 2 powi (double_exp q - 52))"

definition lit_3999_60 :: pyfloat where
  "lit_3999_60 = round_double (39996 / 10)"

section \<open>The claim's reading of the email rule\<close>

text \<open>
  "Carrying the domain suffix", read as a property of strings: the address ends with the
  company domain. The setter above tests containment instead.
\<close>

definition carries_domain_suffix :: "string \<Rightarrow> bool" where
  "carries_domain_suffix s = suffix company_domain s"

(*DEFS_END*)

section \<open>The email setter\<close>

lemma sublist_nonempty: "sublist company_domain s \<Longrightarrow> s \<noteq> []"
  by (auto simp: company_domain_def)

text \<open>
  C2, as stated, fails: the address \<^verbatim>\<open>a@acme-machining.com.example.org\<close> is a non-empty
  string that does not end with the company domain, and the setter stores it.
\<close>

theorem set_email_accepts_inner_domain:
  "\<not> carries_domain_suffix ''a@acme-machining.com.example.org''
   \<and> set_email (VStr ''a@acme-machining.com.example.org'')
        \<lparr>name = ''Ann'', email = ''ann@acme-machining.com'',
         image_path = IMAGE_PLACEHOLDER, id_number = 1\<rparr>
     = (None, \<lparr>name = ''Ann'', email = ''a@acme-machining.com.example.org'',
               image_path = IMAGE_PLACEHOLDER, id_number = 1\<rparr>)"
  by code_simp

text \<open>
  C2, amended: setting the email succeeds exactly when the new value is a string that
  contains \<^verbatim>\<open>@acme-machining.com\<close> somewhere (such a string is non-empty); then the
  email, and only the email, becomes the new value. For every other value the setter
  raises ValueError and the object is unchanged.
\<close>

theorem set_email_spec:
  "set_email v e =
     (case v of
        VStr s \<Rightarrow> if sublist company_domain s then (None, e\<lparr>email := s\<rparr>)
                  else (Some ValueError, e)
      | _ \<Rightarrow> (Some ValueError, e))"
  using sublist_nonempty by (auto simp: set_email_def split: pyval.splits)

section \<open>The role and department setters\<close>

lemma Role_of_simps:
  "Role_of 1 = Inr ceo" "Role_of 2 = Inr cfo" "Role_of 3 = Inr cio"
  by (simp_all add: Role_of_def)

lemma Department_of_simps:
  "Department_of 1 = Inr accounting" "Department_of 2 = Inr finance"
  "Department_of 3 = Inr hr" "Department_of 4 = Inr r_and_d"
  "Department_of 5 = Inr machining"
  by (simp_all add: Department_of_def)

lemma set_role_int:
  "set_role (VInt i) e =
     (if i = 1 then (None, e\<lparr>role := ceo\<rparr>)
      else if i = 2 then (None, e\<lparr>role := cfo\<rparr>)
      else if i = 3 then (None, e\<lparr>role := cio\<rparr>)
      else (Some InvalidRoleException, e))"
  by (auto simp: set_role_def all_role_vals_def Role_of_simps)

lemma set_role_other:
  "\<forall>i. v \<noteq> VInt i \<Longrightarrow> set_role v e = (Some InvalidRoleException, e)"
  by (cases v) (auto simp: set_role_def)

lemma set_department_int:
  "set_department (VInt i) e =
     (if i = 1 then (None, e\<lparr>department := accounting\<rparr>)
      else if i = 2 then (None, e\<lparr>department := finance\<rparr>)
      else if i = 3 then (None, e\<lparr>department := hr\<rparr>)
      else if i = 4 then (None, e\<lparr>department := r_and_d\<rparr>)
      else if i = 5 then (None, e\<lparr>department := machining\<rparr>)
      else (Some InvalidDepartmentException, e))"
  by (auto simp: set_department_def all_depts_def Department_of_simps)

lemma set_department_other:
  "\<forall>i. v \<noteq> VInt i \<Longrightarrow> set_department v e = (Some InvalidDepartmentException, e)"
  by (cases v) (auto simp: set_department_def)

text \<open>
  C5: the role setter succeeds exactly for the integers 1, 2, 3 and stores ceo, cfo, cio;
  the department setter succeeds exactly for the integers 1 to 5 and stores accounting,
  finance, hr, r_and_d, machining. Every other value (another integer, a float such as
  1.0, a string, None, a Role or Department member) raises InvalidRoleException,
  respectively InvalidDepartmentException, and leaves the object as it was.
\<close>

theorem role_department_setters:
  "set_role v e =
     (if v = VInt 1 then (None, e\<lparr>role := ceo\<rparr>)
      else if v = VInt 2 then (None, e\<lparr>role := cfo\<rparr>)
      else if v = VInt 3 then (None, e\<lparr>role := cio\<rparr>)
      else (Some InvalidRoleException, e))
   \<and> set_department w m =
     (if w = VInt 1 then (None, m\<lparr>department := accounting\<rparr>)
      else if w = VInt 2 then (None, m\<lparr>department := finance\<rparr>)
      else if w = VInt 3 then (None, m\<lparr>department := hr\<rparr>)
      else if w = VInt 4 then (None, m\<lparr>department := r_and_d\<rparr>)
      else if w = VInt 5 then (None, m\<lparr>department := machining\<rparr>)
      else (Some InvalidDepartmentException, m))"
proof
  show "set_role v e =
     (if v = VInt 1 then (None, e\<lparr>role := ceo\<rparr>)
      else if v = VInt 2 then (None, e\<lparr>role := cfo\<rparr>)
      else if v = VInt 3 then (None, e\<lparr>role := cio\<rparr>)
      else (Some InvalidRoleException, e))"
  proof (cases "\<exists>i. v = VInt i")
    case True
    then obtain i where "v = VInt i" by blast
    then show ?thesis by (simp add: set_role_int)
  next
    case False
    then show ?thesis by (cases v) (simp_all add: set_role_other)
  qed
next
  show "set_department w m =
     (if w = VInt 1 then (None, m\<lparr>department := accounting\<rparr>)
      else if w = VInt 2 then (None, m\<lparr>department := finance\<rparr>)
      else if w = VInt 3 then (None, m\<lparr>department := hr\<rparr>)
      else if w = VInt 4 then (None, m\<lparr>department := r_and_d\<rparr>)
      else if w = VInt 5 then (None, m\<lparr>department := machining\<rparr>)
      else (Some InvalidDepartmentException, m))"
  proof (cases "\<exists>i. w = VInt i")
    case True
    then obtain i where "w = VInt i" by blast
    then show ?thesis by (simp add: set_department_int)
  next
    case False
    then show ?thesis by (cases w) (simp_all add: set_department_other)
  qed
qed

theorem role_department_setters_witness:
  "set_role (VInt 2)
     \<lparr>name = ''Ann'', email = ''ann@acme-machining.com'', image_path = IMAGE_PLACEHOLDER,
      id_number = 1, yearly = Finite 60000, role = ceo\<rparr>
   = (None, \<lparr>name = ''Ann'', email = ''ann@acme-machining.com'',
             image_path = IMAGE_PLACEHOLDER, id_number = 1, yearly = Finite 60000, role = cfo\<rparr>)
   \<and> set_department (VFloat (Finite 1))
     \<lparr>name = ''Bob'', email = ''bob@acme-machining.com'', image_path = IMAGE_PLACEHOLDER,
      id_number = 2, yearly = Finite 60000, department = hr\<rparr>
   = (Some InvalidDepartmentException,
      \<lparr>name = ''Bob'', email = ''bob@acme-machining.com'', image_path = IMAGE_PLACEHOLDER,
       id_number = 2, yearly = Finite 60000, department = hr\<rparr>)"
  using role_department_setters [of "VInt 2"
      "\<lparr>name = ''Ann'', email = ''ann@acme-machining.com'', image_path = IMAGE_PLACEHOLDER,
        id_number = 1, yearly = Finite 60000, role = ceo\<rparr>"
      "VFloat (Finite 1)"
      "\<lparr>name = ''Bob'', email = ''bob@acme-machining.com'', image_path = IMAGE_PLACEHOLDER,
        id_number = 2, yearly = Finite 60000, department = hr\<rparr>"]
  by simp

section \<open>The yearly and hourly setters; the frame of every setter\<close>

lemma lit_99_99_value: "lit_99_99 = Finite (7036170730324623 / 70368744177664)"
  unfolding lit_99_99_def by code_simp

lemma set_yearly_float:
  "set_yearly (VFloat x) e =
     (if fle x (Finite 50000) then (Some ValueError, e) else (None, e\<lparr>yearly := x\<rparr>))"
  by (simp add: set_yearly_def)

lemma not_fle_iff: "x \<noteq> NaN \<Longrightarrow> y \<noteq> NaN \<Longrightarrow> \<not> fle x y \<longleftrightarrow> flt y x"
  by (cases x; cases y) auto

text \<open>
  C3 at the failing input: the string \<^verbatim>\<open>nan\<close> (as typed into the salary field, or
  read from the data file) converts to a NaN, which is not greater than 50,000, and the
  setter stores it as the yearly amount, since \<^verbatim>\<open>nan <= 50_000.00\<close> is false.
\<close>

theorem set_yearly_accepts_nan:
  "py_float (VStr ''nan'') = Inr NaN
   \<and> \<not> flt (Finite 50000) NaN
   \<and> set_yearly (VStr ''nan'')
        \<lparr>name = ''Ann'', email = ''ann@acme-machining.com'', image_path = IMAGE_PLACEHOLDER,
         id_number = 1, yearly = Finite 60000, role = ceo\<rparr>
     = (None, \<lparr>name = ''Ann'', email = ''ann@acme-machining.com'',
               image_path = IMAGE_PLACEHOLDER, id_number = 1, yearly = NaN, role = ceo\<rparr>)"
  by code_simp

text \<open>
  C4: after the conversion by \<^verbatim>\<open>float\<close>, the hourly setter succeeds exactly when
  15.00 <= x <= 99.99 (the binary64 value of the literal), both endpoints included, and
  then stores x in the hourly field; for every other x, the NaN and the infinities
  included, it raises ValueError and the object is unchanged.
\<close>

theorem set_hourly_spec:
  "set_hourly v e =
     (case py_float v of
        Inl err \<Rightarrow> (Some err, e)
      | Inr x \<Rightarrow> if fle (Finite 15) x \<and> fle x lit_99_99 then (None, e\<lparr>hourly := x\<rparr>)
                 else (Some ValueError, e))
   \<and> set_hourly (VFloat (Finite q)) e =
       (if 15 \<le> q \<and> q \<le> 7036170730324623 / 70368744177664
        then (None, e\<lparr>hourly := Finite q\<rparr>) else (Some ValueError, e))
   \<and> set_hourly (VFloat (Finite 15)) e = (None, e\<lparr>hourly := Finite 15\<rparr>)
   \<and> set_hourly (VFloat lit_99_99) e = (None, e\<lparr>hourly := lit_99_99\<rparr>)
   \<and> set_hourly (VFloat NaN) e = (Some ValueError, e)
   \<and> set_hourly (VFloat PosInf) e = (Some ValueError, e)
   \<and> set_hourly (VFloat NegInf) e = (Some ValueError, e)"
  by (auto simp: set_hourly_def lit_99_99_value split: sum.splits)

theorem set_hourly_spec_witness:
  "set_hourly (VStr ''99.99'')
     \<lparr>name = ''Tom'', email = ''tom@acme-machining.com'', image_path = IMAGE_PLACEHOLDER,
      id_number = 3, hourly = Finite 20\<rparr>
   = (None, \<lparr>name = ''Tom'', email = ''tom@acme-machining.com'',
             image_path = IMAGE_PLACEHOLDER, id_number = 3, hourly = lit_99_99\<rparr>)
   \<and> set_hourly (VFloat (Finite 100))
     \<lparr>name = ''Tom'', email = ''tom@acme-machining.com'', image_path = IMAGE_PLACEHOLDER,
      id_number = 3, hourly = Finite 20\<rparr>
   = (Some ValueError, \<lparr>name = ''Tom'', email = ''tom@acme-machining.com'',
             image_path = IMAGE_PLACEHOLDER, id_number = 3, hourly = Finite 20\<rparr>)"
proof -
  have p: "py_float (VStr ''99.99'') = Inr lit_99_99"
    unfolding lit_99_99_def by code_simp
  have l: "fle (Finite 15) lit_99_99 \<and> fle lit_99_99 lit_99_99"
    by (simp add: lit_99_99_value)
  show ?thesis
    using set_hourly_spec [of "VStr ''99.99''"
        "\<lparr>name = ''Tom'', email = ''tom@acme-machining.com'', image_path = IMAGE_PLACEHOLDER,
          id_number = 3, hourly = Finite 20\<rparr>" 100] p l
    by simp
qed

text \<open>
  C10: each of the nine validating setters either raises and leaves the object exactly as
  it was, or returns normally with an object that differs from the old one in the setter's
  own field only (every other field, the id number and the subclass fields included, is
  the same).
\<close>

theorem setters_frame:
  "(case set_name va (ea :: 'a employee_scheme) of
      (Some x, e') \<Rightarrow> e' = ea | (None, e') \<Rightarrow> \<exists>s. e' = ea\<lparr>name := s\<rparr>)
   \<and> (case set_email vb (eb :: 'b employee_scheme) of
      (Some x, e') \<Rightarrow> e' = eb | (None, e') \<Rightarrow> \<exists>s. e' = eb\<lparr>email := s\<rparr>)
   \<and> (case set_image vc (ec :: 'c employee_scheme) of
      (Some x, e') \<Rightarrow> e' = ec | (None, e') \<Rightarrow> \<exists>s. e' = ec\<lparr>image_path := s\<rparr>)
   \<and> (case set_yearly vd (ed :: 'd salaried_scheme) of
      (Some x, e') \<Rightarrow> e' = ed | (None, e') \<Rightarrow> \<exists>y. e' = ed\<lparr>yearly := y\<rparr>)
   \<and> (case set_hourly ve (ee :: 'e hourly_scheme) of
      (Some x, e') \<Rightarrow> e' = ee | (None, e') \<Rightarrow> \<exists>h. e' = ee\<lparr>hourly := h\<rparr>)
   \<and> (case set_role vf (ef :: 'f executive_scheme) of
      (Some x, e') \<Rightarrow> e' = ef | (None, e') \<Rightarrow> \<exists>r. e' = ef\<lparr>role := r\<rparr>)
   \<and> (case set_department vg (eg :: 'g manager_scheme) of
      (Some x, e') \<Rightarrow> e' = eg | (None, e') \<Rightarrow> \<exists>d. e' = eg\<lparr>department := d\<rparr>)
   \<and> (case set_hired_date vh (eh :: 'h permanent_scheme) of
      (Some x, e') \<Rightarrow> e' = eh | (None, e') \<Rightarrow> \<exists>d. e' = eh\<lparr>hired_date := d\<rparr>)
   \<and> (case set_last_day vi (ei :: 'i temp_scheme) of
      (Some x, e') \<Rightarrow> e' = ei | (None, e') \<Rightarrow> \<exists>d. e' = ei\<lparr>last_day := d\<rparr>)"
proof (intro conjI)
  show "case set_name va ea of (Some x, e') \<Rightarrow> e' = ea | (None, e') \<Rightarrow> \<exists>s. e' = ea\<lparr>name := s\<rparr>"
    by (auto simp: set_name_def split: pyval.splits)
  show "case set_email vb eb of (Some x, e') \<Rightarrow> e' = eb | (None, e') \<Rightarrow> \<exists>s. e' = eb\<lparr>email := s\<rparr>"
    by (auto simp: set_email_def split: pyval.splits)
  show "case set_image vc ec of (Some x, e') \<Rightarrow> e' = ec | (None, e') \<Rightarrow> \<exists>s. e' = ec\<lparr>image_path := s\<rparr>"
    by (auto simp: set_image_def split: pyval.splits)
  show "case set_yearly vd ed of (Some x, e') \<Rightarrow> e' = ed | (None, e') \<Rightarrow> \<exists>y. e' = ed\<lparr>yearly := y\<rparr>"
    by (auto simp: set_yearly_def split: sum.splits)
  show "case set_hourly ve ee of (Some x, e') \<Rightarrow> e' = ee | (None, e') \<Rightarrow> \<exists>h. e' = ee\<lparr>hourly := h\<rparr>"
    by (auto simp: set_hourly_def split: sum.splits)
  show "case set_role vf ef of (Some x, e') \<Rightarrow> e' = ef | (None, e') \<Rightarrow> \<exists>r. e' = ef\<lparr>role := r\<rparr>"
    by (auto simp: set_role_def split: pyval.splits sum.splits)
  show "case set_department vg eg of (Some x, e') \<Rightarrow> e' = eg | (None, e') \<Rightarrow> \<exists>d. e' = eg\<lparr>department := d\<rparr>"
    by (auto simp: set_department_def split: pyval.splits sum.splits)
  show "case set_hired_date vh eh of (Some x, e') \<Rightarrow> e' = eh | (None, e') \<Rightarrow> \<exists>d. e' = eh\<lparr>hired_date := d\<rparr>"
    by (auto simp: set_hired_date_def split: pyval.splits)
  show "case set_last_day vi ei of (Some x, e') \<Rightarrow> e' = ei | (None, e') \<Rightarrow> \<exists>d. e' = ei\<lparr>last_day := d\<rparr>"
    by (auto simp: set_last_day_def split: pyval.splits)
qed

theorem setters_frame_witness:
  "set_name (VStr [])
     \<lparr>name = ''Ann'', email = ''ann@acme-machining.com'', image_path = IMAGE_PLACEHOLDER,
      id_number = 1\<rparr>
   = (Some ValueError, \<lparr>name = ''Ann'', email = ''ann@acme-machining.com'',
        image_path = IMAGE_PLACEHOLDER, id_number = 1\<rparr>)
   \<and> id_number (snd (set_role (VInt 3)
        \<lparr>name = ''Ann'', email = ''ann@acme-machining.com'', image_path = IMAGE_PLACEHOLDER,
         id_number = 1, yearly = Finite 60000, role = ceo\<rparr>)) = 1"
proof -
  let ?a = "\<lparr>name = ''Ann'', email = ''ann@acme-machining.com'',
             image_path = IMAGE_PLACEHOLDER, id_number = 1\<rparr>"
  let ?e = "\<lparr>name = ''Ann'', email = ''ann@acme-machining.com'',
             image_path = IMAGE_PLACEHOLDER, id_number = 1, yearly = Finite 60000, role = ceo\<rparr>"
  let ?h = "\<lparr>name = [], email = [], image_path = [], id_number = 0, hourly = NaN\<rparr>"
  let ?m = "\<lparr>name = [], email = [], image_path = [], id_number = 0, yearly = NaN,
             department = hr\<rparr>"
  let ?d = "\<lparr>year = 1, month = 1, day = 1, hour = 0, minute = 0, second = 0,
             microsecond = 0\<rparr>"
  let ?p = "\<lparr>name = [], email = [], image_path = [], id_number = 0, hourly = NaN,
             hired_date = ?d\<rparr>"
  let ?t = "\<lparr>name = [], email = [], image_path = [], id_number = 0, hourly = NaN,
             last_day = ?d\<rparr>"
  have f: "fst (set_name (VStr []) ?a) = Some ValueError"
    by (simp add: set_name_def)
  have g: "fst (set_role (VInt 3) ?e) = None"
    by (simp add: set_role_int)
  note fr = setters_frame [where va = "VStr []" and ea = ?a and eb = ?a and ec = ?a and ed = ?e
      and ee = ?h and vf = "VInt 3" and ef = ?e and eg = ?m and eh = ?p and ei = ?t]
  have a: "case set_name (VStr []) ?a of (Some x, e') \<Rightarrow> e' = ?a
           | (None, e') \<Rightarrow> \<exists>s. e' = ?a\<lparr>name := s\<rparr>"
    using fr by (rule conjunct1)
  have b: "case set_role (VInt 3) ?e of (Some x, e') \<Rightarrow> e' = ?e
           | (None, e') \<Rightarrow> \<exists>r. e' = ?e\<lparr>role := r\<rparr>"
    using fr [THEN conjunct2, THEN conjunct2, THEN conjunct2, THEN conjunct2, THEN conjunct2,
      THEN conjunct1] .
  from a f have "set_name (VStr []) ?a = (Some ValueError, ?a)"
    by (cases "set_name (VStr []) ?a") auto
  moreover from b g have "id_number (snd (set_role (VInt 3) ?e)) = 1"
    by (cases "set_role (VInt 3) ?e") auto
  ultimately show ?thesis by simp
qed

section \<open>The id counter\<close>

lemma set_name_id: "id_number (snd (set_name v e)) = id_number e"
  by (simp add: set_name_def split: pyval.splits)

lemma set_email_id: "id_number (snd (set_email v e)) = id_number e"
  by (simp add: set_email_def split: pyval.splits)

lemma set_image_id: "id_number (snd (set_image v e)) = id_number e"
  by (simp add: set_image_def split: pyval.splits)

lemma set_yearly_id: "id_number (snd (set_yearly v e)) = id_number e"
  by (simp add: set_yearly_def split: sum.splits)

lemma set_hourly_id: "id_number (snd (set_hourly v e)) = id_number e"
  by (simp add: set_hourly_def split: sum.splits)

lemma set_role_id: "id_number (snd (set_role v e)) = id_number e"
  by (simp add: set_role_def split: pyval.splits sum.splits)

lemma set_department_id: "id_number (snd (set_department v e)) = id_number e"
  by (simp add: set_department_def split: pyval.splits sum.splits)

lemma set_hired_date_id: "id_number (snd (set_hired_date v e)) = id_number e"
  by (simp add: set_hired_date_def split: pyval.splits)

lemma set_last_day_id: "id_number (snd (set_last_day v e)) = id_number e"
  by (simp add: set_last_day_def split: pyval.splits)

lemma Employee_init_takes_id: "takes_id c (Employee_init n e self c)"
  by (auto simp: takes_id_def Employee_init_def split: prod.splits option.splits)

lemma step_takes_id:
  assumes "takes_id c r"
    and "\<And>s. id_number (snd (f s)) = id_number s"
  shows "takes_id c (case r of (Some e, s, c') \<Rightarrow> (Some e, s, c')
                     | (None, s, c') \<Rightarrow> (case f s of (x, s') \<Rightarrow> (x, s', c')))"
proof (cases r)
  case (fields x s c')
  show ?thesis
  proof (cases x)
    case None
    obtain y s' where f: "f s = (y, s')" by (cases "f s")
    with assms(2) [of s] have "id_number s' = id_number s" by simp
    with assms(1) fields None f show ?thesis
      by (cases y) (auto simp: takes_id_def)
  next
    case (Some e)
    with assms(1) fields show ?thesis by (simp add: takes_id_def)
  qed
qed

lemma fail_takes_id:
  "takes_id c r \<Longrightarrow>
   takes_id c (case r of (Some e, s, c') \<Rightarrow> (Some e, s, c') | (None, s, c') \<Rightarrow> (Some x, s, c'))"
  by (auto simp: takes_id_def split: prod.splits option.splits)

lemma Salaried_init_takes_id: "takes_id c (Salaried_init n e y self c)"
proof (cases "py_float y")
  case (Inl x)
  with fail_takes_id [OF Employee_init_takes_id [of c n e self], of x]
  show ?thesis by (auto simp: Salaried_init_def split: prod.splits option.splits)
next
  case (Inr f)
  with step_takes_id [OF Employee_init_takes_id [of c n e self],
      of "set_yearly (VFloat f)", OF set_yearly_id]
  show ?thesis by (auto simp: Salaried_init_def split: prod.splits option.splits)
qed

lemma Hourly_init_takes_id: "takes_id c (Hourly_init n e h self c)"
proof (cases "py_float h")
  case (Inl x)
  with fail_takes_id [OF Employee_init_takes_id [of c n e self], of x]
  show ?thesis by (auto simp: Hourly_init_def split: prod.splits option.splits)
next
  case (Inr f)
  with step_takes_id [OF Employee_init_takes_id [of c n e self],
      of "set_hourly (VFloat f)", OF set_hourly_id]
  show ?thesis by (auto simp: Hourly_init_def split: prod.splits option.splits)
qed

lemma Executive_init_takes_id: "takes_id c (Executive_init n e y r self c)"
proof (cases "py_int r")
  case (Inl x)
  with fail_takes_id [OF Salaried_init_takes_id [of c n e y self], of x]
  show ?thesis by (auto simp: Executive_init_def split: prod.splits option.splits)
next
  case (Inr i)
  with step_takes_id [OF Salaried_init_takes_id [of c n e y self],
      of "set_role (VInt i)", OF set_role_id]
  show ?thesis by (auto simp: Executive_init_def split: prod.splits option.splits)
qed

lemma Manager_init_takes_id: "takes_id c (Manager_init n e y d self c)"
proof (cases "py_int d")
  case (Inl x)
  with fail_takes_id [OF Salaried_init_takes_id [of c n e y self], of x]
  show ?thesis by (auto simp: Manager_init_def split: prod.splits option.splits)
next
  case (Inr i)
  with step_takes_id [OF Salaried_init_takes_id [of c n e y self],
      of "set_department (VInt i)", OF set_department_id]
  show ?thesis by (auto simp: Manager_init_def split: prod.splits option.splits)
qed

lemma Permanent_init_takes_id: "takes_id c (Permanent_init n e h d self c)"
proof (cases "strptime d")
  case (Inl x)
  with fail_takes_id [OF Hourly_init_takes_id [of c n e h self], of x]
  show ?thesis by (auto simp: Permanent_init_def split: prod.splits option.splits)
next
  case (Inr t)
  with step_takes_id [OF Hourly_init_takes_id [of c n e h self],
      of "set_hired_date (VDatetime t)", OF set_hired_date_id]
  show ?thesis by (auto simp: Permanent_init_def split: prod.splits option.splits)
qed

lemma Temp_init_takes_id: "takes_id c (Temp_init n e h d self c)"
proof (cases "strptime d")
  case (Inl x)
  with fail_takes_id [OF Hourly_init_takes_id [of c n e h self], of x]
  show ?thesis by (auto simp: Temp_init_def split: prod.splits option.splits)
next
  case (Inr t)
  with step_takes_id [OF Hourly_init_takes_id [of c n e h self],
      of "set_last_day (VDatetime t)", OF set_last_day_id]
  show ?thesis by (auto simp: Temp_init_def split: prod.splits option.splits)
qed

lemma construct_id_step:
  "takes_id c (init blank c) \<Longrightarrow> id_step c (new_id (construct k init blank c))"
  by (auto simp: takes_id_def id_step_def new_id_def construct_def
      split: prod.splits option.splits)

lemma call_id_step: "id_step c (call_id k c)"
proof (cases k)
  case (NewEmployee n e)
  then show ?thesis
    by (simp add: Employee_new_def construct_id_step Employee_init_takes_id)
next
  case (NewSalaried n e y)
  then show ?thesis
    by (simp add: Salaried_new_def construct_id_step Salaried_init_takes_id)
next
  case (NewHourly n e h)
  then show ?thesis
    by (simp add: Hourly_new_def construct_id_step Hourly_init_takes_id)
next
  case (NewExecutive n e y r)
  then show ?thesis
    by (simp add: Executive_new_def construct_id_step Executive_init_takes_id)
next
  case (NewManager n e y d)
  then show ?thesis
    by (simp add: Manager_new_def construct_id_step Manager_init_takes_id)
next
  case (NewPermanent n e h d)
  then show ?thesis
    by (simp add: Permanent_new_def construct_id_step Permanent_init_takes_id)
next
  case (NewTemp n e h d)
  then show ?thesis
    by (simp add: Temp_new_def construct_id_step Temp_init_takes_id)
qed

lemma ids_of_run_lower: "i \<in> set (ids_of_run ks c) \<Longrightarrow> c \<le> i"
proof (induction ks arbitrary: c)
  case Nil
  then show ?case by simp
next
  case (Cons k ks)
  obtain r c' where r: "call_id k c = (r, c')" by (cases "call_id k c")
  with call_id_step [of c k] have st: "id_step c (r, c')" by simp
  show ?case
  proof (cases r)
    case None
    with r Cons.prems have "i \<in> set (ids_of_run ks c')" by simp
    from Cons.IH [OF this] st None show ?thesis by (auto simp: id_step_def)
  next
    case (Some j)
    with st have j: "j = c" "c' = c + 1" by (simp_all add: id_step_def)
    from r Some Cons.prems have "i = j \<or> i \<in> set (ids_of_run ks c')" by simp
    then show ?thesis
    proof
      assume "i = j" with j show ?thesis by simp
    next
      assume "i \<in> set (ids_of_run ks c')"
      from Cons.IH [OF this] j show ?thesis by simp
    qed
  qed
qed

lemma ids_of_run_increasing: "sorted_wrt (<) (ids_of_run ks c)"
proof (induction ks arbitrary: c)
  case Nil
  then show ?case by simp
next
  case (Cons k ks)
  obtain r c' where r: "call_id k c = (r, c')" by (cases "call_id k c")
  with call_id_step [of c k] have st: "id_step c (r, c')" by simp
  show ?case
  proof (cases r)
    case None
    with r Cons.IH [of c'] show ?thesis by simp
  next
    case (Some j)
    with st have j: "j = c" "c' = c + 1" by (simp_all add: id_step_def)
    have "\<forall>i \<in> set (ids_of_run ks c'). j < i"
      using ids_of_run_lower [of _ ks c'] j by fastforce
    with r Some Cons.IH [of c'] show ?thesis by simp
  qed
qed

lemma ids_of_run_length: "length (ids_of_run ks c) \<le> length ks"
proof (induction ks arbitrary: c)
  case Nil
  then show ?case by simp
next
  case (Cons k ks)
  obtain r c' where r: "call_id k c = (r, c')" by (cases "call_id k c")
  with Cons.IH [of c'] show ?case by (cases r) (simp_all add: le_SucI)
qed

lemma ids_of_run_consecutive:
  "length (ids_of_run ks c) = length ks \<Longrightarrow>
   ids_of_run ks c = map (\<lambda>j. c + int j) [0 ..< length ks]"
proof (induction ks arbitrary: c)
  case Nil
  then show ?case by simp
next
  case (Cons k ks)
  obtain r c' where r: "call_id k c = (r, c')" by (cases "call_id k c")
  with call_id_step [of c k] have st: "id_step c (r, c')" by simp
  show ?case
  proof (cases r)
    case None
    with r Cons.prems have "length (ids_of_run ks c') = Suc (length ks)" by simp
    with ids_of_run_length [of ks c'] show ?thesis by simp
  next
    case (Some j)
    with st have j: "j = c" "c' = c + 1" by (simp_all add: id_step_def)
    from r Some Cons.prems have "length (ids_of_run ks c') = length ks" by simp
    from Cons.IH [OF this] have "ids_of_run ks c' = map (\<lambda>j. c' + int j) [0 ..< length ks]" .
    moreover have "map (\<lambda>j. c + int j) [0 ..< Suc (length ks)]
        = c # map (\<lambda>j. c + 1 + int j) [0 ..< length ks]"
      by (simp add: upt_rec [of 0] map_Suc_upt [symmetric] del: upt_Suc)
    ultimately show ?thesis using r Some j by simp
  qed
qed

text \<open>
  A run with a failed call in it: the second call passes the name and email checks of
  \<^verbatim>\<open>Employee.__init__\<close>, which advances the counter, and then fails in the yearly setter
  (10 is not above 50,000). The ids of the two objects constructed are still increasing.
\<close>

lemma ids_of_run_with_failed_call:
  "ids_of_run
     [NewExecutive (VStr ''A'') (VStr ''a@acme-machining.com'') (VStr ''60000'') (VStr ''1''),
      NewExecutive (VStr ''B'') (VStr ''b@acme-machining.com'') (VStr ''10'') (VStr ''1''),
      NewExecutive (VStr ''C'') (VStr ''c@acme-machining.com'') (VStr ''60000'') (VStr ''1'')]
     1 = [1, 3]"
  by code_simp

text \<open>
  C1: every id number is the value of the one counter at construction. In any sequence of
  constructor calls the ids of the objects constructed are strictly increasing in the order
  of construction; in a sequence of successful constructions (every call of the sequence
  returns an object) they are consecutive: c, c + 1, c + 2, ... from the counter value c at
  the start. Afterwards no operation changes the id number of an object: the operations
  that store into an object are the nine validating setters, none of which touches it
  whether it returns normally or raises, and an assignment to \<^verbatim>\<open>id_number\<close> itself
  raises AttributeError and leaves the object as it was (the property has no setter).
\<close>

theorem id_numbers_increase:
  "sorted_wrt (<) (ids_of_run ks c)
   \<and> (length (ids_of_run ks c) = length ks
        \<longrightarrow> ids_of_run ks c = map (\<lambda>j. c + int j) [0 ..< length ks])
   \<and> id_number (snd (set_name va (ea :: 'a employee_scheme))) = id_number ea
   \<and> id_number (snd (set_email vb (eb :: 'b employee_scheme))) = id_number eb
   \<and> id_number (snd (set_image vc (ec :: 'c employee_scheme))) = id_number ec
   \<and> id_number (snd (set_yearly vd (ed :: 'd salaried_scheme))) = id_number ed
   \<and> id_number (snd (set_hourly ve (ee :: 'e hourly_scheme))) = id_number ee
   \<and> id_number (snd (set_role vf (ef :: 'f executive_scheme))) = id_number ef
   \<and> id_number (snd (set_department vg (eg :: 'g manager_scheme))) = id_number eg
   \<and> id_number (snd (set_hired_date vh (eh :: 'h permanent_scheme))) = id_number eh
   \<and> id_number (snd (set_last_day vi (ei :: 'i temp_scheme))) = id_number ei
   \<and> set_id_number vj (ej :: 'j employee_scheme) = (Some AttributeError, ej)"
  by (simp add: ids_of_run_increasing ids_of_run_consecutive set_name_id set_email_id
      set_image_id set_yearly_id set_hourly_id set_role_id set_department_id
      set_hired_date_id set_last_day_id set_id_number_def)

theorem id_numbers_increase_witness:
  "ids_of_run
     [NewExecutive (VStr ''A'') (VStr ''a@acme-machining.com'') (VStr ''60000'') (VStr ''1''),
      NewTemp (VStr ''B'') (VStr ''b@acme-machining.com'') (VStr ''45.00'')
        (VStr ''2023-03-02 12:11:50''),
      NewManager (VStr ''C'') (VStr ''c@acme-machining.com'') (VStr ''60000'') (VStr ''5'')]
     7 = [7, 8, 9]"
proof -
  let ?ks = "[NewExecutive (VStr ''A'') (VStr ''a@acme-machining.com'') (VStr ''60000'')
        (VStr ''1''),
      NewTemp (VStr ''B'') (VStr ''b@acme-machining.com'') (VStr ''45.00'')
        (VStr ''2023-03-02 12:11:50''),
      NewManager (VStr ''C'') (VStr ''c@acme-machining.com'') (VStr ''60000'') (VStr ''5'')]"
  have h: "length (ids_of_run ?ks 7) = length ?ks"
    by code_simp
  have "length (ids_of_run ?ks 7) = length ?ks
        \<longrightarrow> ids_of_run ?ks 7 = map (\<lambda>j. 7 + int j) [0 ..< length ?ks]"
    using id_numbers_increase [where ks = ?ks and c = 7
        and ea = blank_employee and eb = blank_employee and ec = blank_employee
        and ed = blank_salaried and ee = blank_hourly and ef = blank_executive
        and eg = blank_manager and eh = blank_permanent and ei = blank_temp
        and ej = blank_employee]
    by blast
  with h have "ids_of_run ?ks 7 = map (\<lambda>j. 7 + int j) [0 ..< length ?ks]"
    by blast
  also have "\<dots> = [7, 8, 9]"
    by (simp add: upt_rec)
  finally show ?thesis .
qed

section \<open>Abstract classes\<close>

text \<open>
  C7 at the failing input: \<^verbatim>\<open>Employee\<close> keeps the abstract method \<^verbatim>\<open>calc_pay\<close>, but
  \<^verbatim>\<open>Salaried\<close> and \<^verbatim>\<open>Hourly\<close> override it with a concrete one, so their sets of
  abstract methods are empty and calling either class directly returns an object.
\<close>

theorem salaried_and_hourly_instantiable:
  "abstractmethods Employee = [''calc_pay'']
   \<and> Employee_new (VStr ''Ann'') (VStr ''ann@acme-machining.com'') 1 = (Inl TypeError, 1)
   \<and> abstractmethods Salaried = [] \<and> abstractmethods Hourly = []
   \<and> Salaried_new (VStr ''Ann'') (VStr ''ann@acme-machining.com'') (VStr ''60000'') 1
     = (Inr \<lparr>name = ''Ann'', email = ''ann@acme-machining.com'',
             image_path = IMAGE_PLACEHOLDER, id_number = 1, yearly = Finite 60000\<rparr>, 2)
   \<and> Hourly_new (VStr ''Tom'') (VStr ''tom@acme-machining.com'') (VStr ''20'') 2
     = (Inr \<lparr>name = ''Tom'', email = ''tom@acme-machining.com'',
             image_path = IMAGE_PLACEHOLDER, id_number = 2, hourly = Finite 20\<rparr>, 3)"
  by code_simp

section \<open>Serialization\<close>

text \<open>
  C6: the \<^verbatim>\<open>__repr__\<close> of each of the four concrete classes is the six fields type name,
  name, email, image path, pay amount with two decimals and the extra attribute (the
  value of the role or of the department, the hired date or the last day as \<^verbatim>\<open>str\<close>
  prints a datetime), in this order, joined by commas.
\<close>

theorem repr_is_comma_joined:
  "Executive_repr e =
     join '','' [''Executive'', name e, email e, image_path e, fmt_2f (yearly e),
                 show_int (role_value (role e))]
   \<and> Manager_repr m =
     join '','' [''Manager'', name m, email m, image_path m, fmt_2f (yearly m),
                 show_int (department_value (department m))]
   \<and> Permanent_repr p =
     join '','' [''Permanent'', name p, email p, image_path p, fmt_2f (hourly p),
                 datetime_str (hired_date p)]
   \<and> Temp_repr t =
     join '','' [''Temp'', name t, email t, image_path t, fmt_2f (hourly t),
                 datetime_str (last_day t)]"
  by (simp add: Executive_repr_def Manager_repr_def Permanent_repr_def Temp_repr_def
      Salaried_repr_def Hourly_repr_def Employee_repr_def)

theorem repr_is_comma_joined_witness:
  "Executive_repr \<lparr>name = ''Ann'', email = ''ann@acme-machining.com'',
      image_path = IMAGE_PLACEHOLDER, id_number = 1, yearly = Finite (120001 / 2), role = cfo\<rparr>
     = ''Executive,Ann,ann@acme-machining.com,./imagesForProject2CIS163/placeholder.png,60000.50,2''
   \<and> Temp_repr \<lparr>name = ''Tom'', email = ''tom@acme-machining.com'',
      image_path = IMAGE_PLACEHOLDER, id_number = 2, hourly = Finite 45,
      last_day = \<lparr>year = 2023, month = 3, day = 2, hour = 12, minute = 11, second = 50,
                  microsecond = 0\<rparr>\<rparr>
     = ''Temp,Tom,tom@acme-machining.com,./imagesForProject2CIS163/placeholder.png,45.00,2023-03-02 12:11:50''"
proof -
  let ?e = "\<lparr>name = ''Ann'', email = ''ann@acme-machining.com'',
      image_path = IMAGE_PLACEHOLDER, id_number = 1, yearly = Finite (120001 / 2), role = cfo\<rparr>"
  let ?d = "\<lparr>year = 2023, month = 3, day = 2, hour = 12, minute = 11, second = 50,
                  microsecond = 0\<rparr>"
  let ?t = "\<lparr>name = ''Tom'', email = ''tom@acme-machining.com'',
      image_path = IMAGE_PLACEHOLDER, id_number = 2, hourly = Finite 45, last_day = ?d\<rparr>"
  have f1: "fmt_2f (Finite (120001 / 2)) = ''60000.50''" by code_simp
  have f2: "fmt_2f (Finite 45) = ''45.00''" by code_simp
  have f3: "show_int 2 = ''2''" by code_simp
  have f4: "datetime_str ?d = ''2023-03-02 12:11:50''" by code_simp
  from repr_is_comma_joined [of ?e _ _ ?t]
  have "Executive_repr ?e =
     join '','' [''Executive'', name ?e, email ?e, image_path ?e, fmt_2f (yearly ?e),
                 show_int (role_value (role ?e))]"
    and "Temp_repr ?t =
     join '','' [''Temp'', name ?t, email ?t, image_path ?t, fmt_2f (hourly ?t),
                 datetime_str (last_day ?t)]"
    by simp_all
  then show ?thesis
    by (simp add: f1 f2 f3 f4 IMAGE_PLACEHOLDER_def)
qed

section \<open>Rounding to binary64 is monotone\<close>

lemma round_half_even_bounds:
  "of_int (round_half_even x) \<le> x + 1 / 2 \<and> x - 1 / 2 \<le> of_int (round_half_even x)"
  unfolding round_half_even_def Let_def by (auto; linarith)

lemma round_half_even_of_int [simp]: "round_half_even (of_int n) = n"
  by (simp add: round_half_even_def)

lemma round_half_even_mono:
  assumes "x \<le> y"
  shows "round_half_even x \<le> round_half_even y"
proof -
  have fl: "\<lfloor>x\<rfloor> \<le> \<lfloor>y\<rfloor>" using assms by (rule floor_mono)
  show ?thesis
  proof (cases "\<lfloor>x\<rfloor> = \<lfloor>y\<rfloor>")
    case True
    with assms have "x - of_int \<lfloor>x\<rfloor> \<le> y - of_int \<lfloor>y\<rfloor>" by simp
    with True show ?thesis
      unfolding round_half_even_def Let_def by auto
  next
    case False
    with fl have "\<lfloor>x\<rfloor> + 1 \<le> \<lfloor>y\<rfloor>" by simp
    moreover have "round_half_even x \<le> \<lfloor>x\<rfloor> + 1"
      unfolding round_half_even_def Let_def by auto
    moreover have "\<lfloor>y\<rfloor> \<le> round_half_even y"
      unfolding round_half_even_def Let_def by auto
    ultimately show ?thesis by linarith
  qed
qed

lemma round_half_even_ge: "of_int n \<le> x \<Longrightarrow> n \<le> round_half_even x"
  using round_half_even_mono [of "of_int n" x] by simp

lemma round_half_even_le: "x \<le> of_int n \<Longrightarrow> round_half_even x \<le> n"
  using round_half_even_mono [of x "of_int n"] by simp

lemma binade_bounds:
  assumes "0 < q"
  shows "2 powi (binade q) \<le> q \<and> q < 2 powi (binade q + 1)"
proof -
  obtain a b where ab: "quotient_of q = (a, b)" by (cases "quotient_of q")
  then have b: "0 < b" by (rule quotient_of_denom_pos)
  from ab have q: "q = of_int a / of_int b" by (rule quotient_of_div)
  with assms b have a: "0 < a" by (simp add: zero_less_divide_iff)
  define la lb where "la = bitlen a" and "lb = bitlen b"
  from bitlen_bounds [OF a] have a1: "2 ^ nat (la - 1) \<le> a" and a2: "a < 2 ^ nat la"
    by (simp_all add: la_def)
  from bitlen_bounds [OF b] have b1: "2 ^ nat (lb - 1) \<le> b" and b2: "b < 2 ^ nat lb"
    by (simp_all add: lb_def)
  have la: "1 \<le> la" using a by (auto simp: la_def bitlen_alt_def)
  have lb: "1 \<le> lb" using b by (auto simp: lb_def bitlen_alt_def)
  have ra1: "(2::rat) powi (la - 1) \<le> of_int a"
  proof -
    have "(of_int (2 ^ nat (la - 1)) :: rat) \<le> of_int a" using a1 by (simp only: of_int_le_iff)
    then show ?thesis using la by (simp add: power_int_def)
  qed
  have ra2: "of_int a < (2::rat) powi la"
  proof -
    have "(of_int a :: rat) < of_int (2 ^ nat la)" using a2 by (simp only: of_int_less_iff)
    then show ?thesis using la by (simp add: power_int_def)
  qed
  have rb1: "(2::rat) powi (lb - 1) \<le> of_int b"
  proof -
    have "(of_int (2 ^ nat (lb - 1)) :: rat) \<le> of_int b" using b1 by (simp only: of_int_le_iff)
    then show ?thesis using lb by (simp add: power_int_def)
  qed
  have rb2: "of_int b < (2::rat) powi lb"
  proof -
    have "(of_int b :: rat) < of_int (2 ^ nat lb)" using b2 by (simp only: of_int_less_iff)
    then show ?thesis using lb by (simp add: power_int_def)
  qed
  define k where "k = la - lb"
  have bpos: "(0::rat) < of_int b" using b by simp
  have up: "q < 2 powi (k + 1)"
  proof -
    have "of_int a < (2::rat) powi la" by (rule ra2)
    also have "\<dots> = 2 powi (k + 1) * 2 powi (lb - 1)"
      by (simp add: k_def flip: power_int_add)
    also have "\<dots> \<le> 2 powi (k + 1) * of_int b"
      by (rule mult_left_mono [OF rb1]) simp
    finally show ?thesis using bpos by (simp add: q pos_divide_less_eq)
  qed
  have lo: "2 powi (k - 1) < q"
  proof -
    have "(2::rat) powi (k - 1) * of_int b < 2 powi (k - 1) * 2 powi lb"
      by (rule mult_strict_left_mono [OF rb2]) simp
    also have "\<dots> = 2 powi (la - 1)"
      by (simp add: k_def flip: power_int_add)
    also have "\<dots> \<le> of_int a" by (rule ra1)
    finally show ?thesis using bpos by (simp add: q pos_less_divide_eq)
  qed
  have bin: "binade q = (if 2 powi k \<le> q then k else k - 1)"
    by (simp add: binade_def ab k_def la_def lb_def)
  show ?thesis
  proof (cases "2 powi k \<le> q")
    case True
    with bin up show ?thesis by simp
  next
    case False
    with bin lo show ?thesis by simp
  qed
qed

lemma binade_mono:
  assumes "0 < p" "p \<le> q"
  shows "binade p \<le> binade q"
proof (rule ccontr)
  assume "\<not> binade p \<le> binade q"
  then have "binade q + 1 \<le> binade p" by simp
  then have "(2::rat) powi (binade q + 1) \<le> 2 powi (binade p)"
    by (rule power_int_increasing) simp
  also have "\<dots> \<le> p" using binade_bounds [OF assms(1)] by simp
  finally have "2 powi (binade q + 1) \<le> q" using assms(2) by simp
  moreover have "q < 2 powi (binade q + 1)" using binade_bounds [of q] assms by simp
  ultimately show False by simp
qed


lemma round_double_pos:
  assumes "0 < q"
  shows "round_double q =
     (if 1024 \<le> double_exp q \<or> (double_exp q = 1023 \<and> double_mant q = 2 ^ 53) then PosInf
      else Finite (of_int (double_mant q) * 2 powi (double_exp q - 52)))"
proof -
  from assms have a: "(q = 0) = False" "\<bar>q\<bar> = q" "(0 < q) = True" by simp_all
  show ?thesis
    by (simp only: round_double_def Let_def double_exp_def double_mant_def a if_False if_True)
qed

lemma pow2_split_53: "(2::rat) ^ 53 * 2 powi (e - 52) = 2 powi (e + 1)"
  using power_int_add [of "2::rat" 53 "e - 52"] by (simp add: add.commute)

lemma pow2_split_52: "(2::rat) ^ 52 * 2 powi (e - 52) = 2 powi e"
  using power_int_add [of "2::rat" 52 "e - 52"] by simp

lemma double_exp_mono: "0 < p \<Longrightarrow> p \<le> q \<Longrightarrow> double_exp p \<le> double_exp q"
  using binade_mono [of p q] by (simp add: double_exp_def)

lemma double_mant_le:
  assumes "0 < q"
  shows "double_mant q \<le> 2 ^ 53"
proof -
  define e where "e = double_exp q"
  have u: "(0::rat) < 2 powi (e - 52)" by simp
  have "binade q \<le> e" by (simp add: e_def double_exp_def)
  then have "(2::rat) powi (binade q + 1) \<le> 2 powi (e + 1)"
    by (intro power_int_increasing) simp_all
  with binade_bounds [OF assms] have "q \<le> 2 powi (e + 1)" by simp
  also have "\<dots> = 2 ^ 53 * 2 powi (e - 52)"
    by (simp only: pow2_split_53)
  finally have "q / 2 powi (e - 52) \<le> 2 ^ 53"
    using u by (simp only: pos_divide_le_eq)
  then have "q / 2 powi (e - 52) \<le> of_int (2 ^ 53)" by simp
  then have "round_half_even (q / 2 powi (e - 52)) \<le> 2 ^ 53"
    by (rule round_half_even_le)
  then show ?thesis by (simp add: double_mant_def e_def)
qed

lemma double_mant_ge:
  assumes "0 < q" "- 1022 \<le> binade q"
  shows "2 ^ 52 \<le> double_mant q"
proof -
  define e where "e = double_exp q"
  have e: "e = binade q" using assms(2) by (simp add: e_def double_exp_def)
  have u: "(0::rat) < 2 powi (e - 52)" by simp
  have "(2::rat) ^ 52 * 2 powi (e - 52) = 2 powi e"
    by (rule pow2_split_52)
  also have "\<dots> \<le> q" using binade_bounds [OF assms(1)] e by simp
  finally have "2 ^ 52 \<le> q / 2 powi (e - 52)"
    using u by (simp only: pos_le_divide_eq)
  then have "of_int (2 ^ 52) \<le> q / 2 powi (e - 52)" by simp
  then have "2 ^ 52 \<le> round_half_even (q / 2 powi (e - 52))"
    by (rule round_half_even_ge)
  then show ?thesis by (simp add: double_mant_def e_def)
qed

lemma double_value_mono:
  assumes "0 < p" "p \<le> q"
  shows "of_int (double_mant p) * (2::rat) powi (double_exp p - 52)
         \<le> of_int (double_mant q) * 2 powi (double_exp q - 52)"
proof (cases "double_exp p = double_exp q")
  case True
  have "p / 2 powi (double_exp q - 52) \<le> q / 2 powi (double_exp q - 52)"
    using assms(2) by (simp add: divide_right_mono)
  then have "double_mant p \<le> double_mant q"
    unfolding double_mant_def True by (rule round_half_even_mono)
  then have "(of_int (double_mant p) :: rat) \<le> of_int (double_mant q)" by simp
  then show ?thesis
    unfolding True by (rule mult_right_mono) simp
next
  case False
  with double_exp_mono [OF assms] have lt: "double_exp p + 1 \<le> double_exp q" by simp
  from assms have q: "0 < q" by simp
  from lt have "- 1022 < double_exp q" by (simp add: double_exp_def)
  then have bq: "- 1022 \<le> binade q" "double_exp q = binade q"
    by (simp_all add: double_exp_def max_def split: if_splits)
  have "(of_int (double_mant p) :: rat) \<le> of_int (2 ^ 53)"
    using double_mant_le [OF assms(1)] by (simp only: of_int_le_iff)
  then have "of_int (double_mant p) * (2::rat) powi (double_exp p - 52)
             \<le> of_int (2 ^ 53) * 2 powi (double_exp p - 52)"
    by (rule mult_right_mono) simp
  also have "\<dots> = 2 powi (double_exp p + 1)"
    using pow2_split_53 [of "double_exp p"] by simp
  also have "\<dots> \<le> 2 powi (double_exp q)"
    using lt by (intro power_int_increasing) simp_all
  also have "\<dots> = of_int (2 ^ 52) * 2 powi (double_exp q - 52)"
    using pow2_split_52 [of "double_exp q"] by simp
  also have "\<dots> \<le> of_int (double_mant q) * 2 powi (double_exp q - 52)"
  proof (rule mult_right_mono)
    show "(of_int (2 ^ 52) :: rat) \<le> of_int (double_mant q)"
      using double_mant_ge [OF q bq(1)] by (simp only: of_int_le_iff)
  qed simp
  finally show ?thesis .
qed

lemma double_overflow_mono:
  assumes "0 < p" "p \<le> q"
    and "1024 \<le> double_exp p \<or> (double_exp p = 1023 \<and> double_mant p = 2 ^ 53)"
  shows "1024 \<le> double_exp q \<or> (double_exp q = 1023 \<and> double_mant q = 2 ^ 53)"
proof (cases "double_exp p = double_exp q")
  case True
  have "p / 2 powi (double_exp q - 52) \<le> q / 2 powi (double_exp q - 52)"
    using assms(2) by (simp add: divide_right_mono)
  then have m: "double_mant p \<le> double_mant q"
    unfolding double_mant_def True by (rule round_half_even_mono)
  from assms have "double_mant q \<le> 2 ^ 53" by (intro double_mant_le) simp
  with m assms(3) True show ?thesis by auto
next
  case False
  with double_exp_mono [OF assms(1,2)] have "double_exp p < double_exp q" by simp
  with assms(3) show ?thesis by auto
qed

lemma round_double_mono:
  assumes "0 < p" "p \<le> q"
  shows "fle (round_double p) (round_double q)"
proof -
  from assms have q: "0 < q" by simp
  show ?thesis
  proof (cases "1024 \<le> double_exp q \<or> (double_exp q = 1023 \<and> double_mant q = 2 ^ 53)")
    case True
    then have "round_double q = PosInf" by (simp add: round_double_pos [OF q])
    moreover have "round_double p \<noteq> NaN"
      by (simp add: round_double_pos [OF assms(1)])
    ultimately show ?thesis by (cases "round_double p") simp_all
  next
    case False
    with double_overflow_mono [OF assms]
    have "\<not> (1024 \<le> double_exp p \<or> (double_exp p = 1023 \<and> double_mant p = 2 ^ 53))"
      by blast
    with False double_value_mono [OF assms] show ?thesis
      by (simp add: round_double_pos [OF q] round_double_pos [OF assms(1)])
  qed
qed

section \<open>The pay calculation\<close>

lemma round_double_weekly_floor:
  "round_double (50000 / 52) = Finite (8457781752123077 / 8796093022208)"
  by code_simp

lemma round_double_600: "round_double 600 = Finite 600"
  by code_simp

lemma round_double_top_pay:
  "round_double (7036170730324623 / 70368744177664 * 40) = lit_3999_60"
  unfolding lit_3999_60_def by code_simp

lemma lit_3999_60_value: "lit_3999_60 = Finite (8795213412905779 / 2199023255552)"
  unfolding lit_3999_60_def by code_simp

lemma flt_above: "fle (Finite v) p \<Longrightarrow> c < v \<Longrightarrow> flt (Finite c) p"
  by (cases p) simp_all

lemma salaried_pay_finite:
  assumes "50000 < y"
  shows "flt (Finite (50000 / 52)) (round_double (y / 52))"
proof -
  have "fle (round_double (50000 / 52)) (round_double (y / 52))"
    using assms by (intro round_double_mono) simp_all
  then have "fle (Finite (8457781752123077 / 8796093022208)) (round_double (y / 52))"
    by (simp only: round_double_weekly_floor)
  then show ?thesis by (rule flt_above) simp
qed

lemma hourly_pay_finite:
  assumes "15 \<le> x" "x \<le> 7036170730324623 / 70368744177664"
  shows "fle (Finite 600) (round_double (x * 40)) \<and> fle (round_double (x * 40)) lit_3999_60"
proof
  have "fle (round_double 600) (round_double (x * 40))"
    using assms(1) by (intro round_double_mono) simp_all
  then show "fle (Finite 600) (round_double (x * 40))"
    by (simp only: round_double_600)
next
  have "fle (round_double (x * 40)) (round_double (7036170730324623 / 70368744177664 * 40))"
    using assms by (intro round_double_mono) simp_all
  then show "fle (round_double (x * 40)) lit_3999_60"
    by (simp only: round_double_top_pay)
qed

text \<open>
  C9: \<^verbatim>\<open>Salaried.calc_pay\<close> never raises and returns the yearly amount divided by 52.0
  (the quotient rounded to binary64), \<^verbatim>\<open>Hourly.calc_pay\<close> returns the hourly rate times
  40 (rounded likewise). Hence a yearly amount above 50,000 gives a pay above 50000/52,
  and an hourly rate within [15.00, 99.99] gives a pay within [600.00, 3999.60], the
  bounds being the binary64 values of the literals.
\<close>

theorem calc_pay_bounds:
  "(\<exists>p. Salaried_calc_pay e = Inr p)
   \<and> (\<forall>y. yearly e = Finite y \<longrightarrow> Salaried_calc_pay e = Inr (round_double (y / 52)))
   \<and> (flt (Finite 50000) (yearly e)
        \<longrightarrow> (\<exists>p. Salaried_calc_pay e = Inr p \<and> flt (Finite (50000 / 52)) p))
   \<and> (\<forall>x. hourly h = Finite x \<longrightarrow> Hourly_calc_pay h = round_double (x * 40))
   \<and> (fle (Finite 15) (hourly h) \<and> fle (hourly h) lit_99_99
        \<longrightarrow> fle (Finite 600) (Hourly_calc_pay h) \<and> fle (Hourly_calc_pay h) lit_3999_60)"
proof (intro conjI allI impI)
  show "\<exists>p. Salaried_calc_pay e = Inr p"
    by (simp add: Salaried_calc_pay_def)
  show "Salaried_calc_pay e = Inr (round_double (y / 52))" if "yearly e = Finite y" for y
    using that by (simp add: Salaried_calc_pay_def)
  show "\<exists>p. Salaried_calc_pay e = Inr p \<and> flt (Finite (50000 / 52)) p"
    if "flt (Finite 50000) (yearly e)"
  proof (cases "yearly e")
    case (Finite y)
    with that have "50000 < y" by simp
    from salaried_pay_finite [OF this] Finite show ?thesis
      by (simp add: Salaried_calc_pay_def)
  next
    case PosInf
    then show ?thesis by (simp add: Salaried_calc_pay_def)
  next
    case NegInf
    with that show ?thesis by simp
  next
    case NaN
    with that show ?thesis by simp
  qed
  show "Hourly_calc_pay h = round_double (x * 40)" if "hourly h = Finite x" for x
    using that by (simp add: Hourly_calc_pay_def)
  assume b: "fle (Finite 15) (hourly h) \<and> fle (hourly h) lit_99_99"
  then obtain x where x: "hourly h = Finite x"
    by (cases "hourly h") (simp_all add: lit_99_99_value)
  with b have "15 \<le> x" "x \<le> 7036170730324623 / 70368744177664"
    by (simp_all add: lit_99_99_value)
  from hourly_pay_finite [OF this] x
  show "fle (Finite 600) (Hourly_calc_pay h)" "fle (Hourly_calc_pay h) lit_3999_60"
    by (simp_all add: Hourly_calc_pay_def)
qed

theorem calc_pay_bounds_witness:
  "Salaried_calc_pay \<lparr>name = ''Ann'', email = ''ann@acme-machining.com'',
      image_path = IMAGE_PLACEHOLDER, id_number = 1, yearly = Finite 60000, role = cfo\<rparr>
     = Inr (round_double (60000 / 52))
   \<and> flt (Finite (50000 / 52)) (round_double (60000 / 52))
   \<and> fle (Finite 600) (Hourly_calc_pay \<lparr>name = ''Tom'', email = ''tom@acme-machining.com'',
      image_path = IMAGE_PLACEHOLDER, id_number = 2, hourly = Finite 20\<rparr>)
   \<and> fle (Hourly_calc_pay \<lparr>name = ''Tom'', email = ''tom@acme-machining.com'',
      image_path = IMAGE_PLACEHOLDER, id_number = 2, hourly = Finite 20\<rparr>) lit_3999_60"
proof -
  let ?e = "\<lparr>name = ''Ann'', email = ''ann@acme-machining.com'',
      image_path = IMAGE_PLACEHOLDER, id_number = 1, yearly = Finite 60000, role = cfo\<rparr>"
  let ?h = "\<lparr>name = ''Tom'', email = ''tom@acme-machining.com'',
      image_path = IMAGE_PLACEHOLDER, id_number = 2, hourly = Finite 20\<rparr>"
  note b = calc_pay_bounds [of ?e ?h]
  have y: "yearly ?e = Finite 60000" and g: "flt (Finite 50000) (yearly ?e)"
    by simp_all
  have r: "fle (Finite 15) (hourly ?h) \<and> fle (hourly ?h) lit_99_99"
    by (simp add: lit_99_99_value)
  from b y have 1: "Salaried_calc_pay ?e = Inr (round_double (60000 / 52))"
    by blast
  from b g obtain p where "Salaried_calc_pay ?e = Inr p" "flt (Finite (50000 / 52)) p"
    by blast
  with 1 have 2: "flt (Finite (50000 / 52)) (round_double (60000 / 52))"
    by simp
  from b r have 3: "fle (Finite 600) (Hourly_calc_pay ?h) \<and> fle (Hourly_calc_pay ?h) lit_3999_60"
    by blast
  from 1 2 3 show ?thesis by blast
qed

end
